theory Spec2Isabelle
  imports Complex_Main "HOL-Library.Word" "HOL-Library.Sublist"
begin

section \<open>Shared data model\<close>

text \<open>
  The node is written in C++.  Values of type \<^verbatim>\<open>double\<close> and \<^verbatim>\<open>float\<close> are modelled by the
  real numbers they denote.  Where a floating-point result is converted to an integer (the
  threshold of the depth clipping, the nanosecond count of the time base) every operation is
  rounded to its format as IEEE 754 prescribes; the arithmetic of the IMU interpolation and of
  the calibration matrices is taken exact.  Every conversion from a floating-point value to an
  integer type is written out.  Exceptions are values of \<open>std_exception\<close>; a function that can
  throw returns the exception (if any) together with the state it leaves behind.
\<close>

datatype std_exception = runtime_error string | out_of_range string

text \<open>\<^verbatim>\<open>std::to_string\<close> on an unsigned size: the decimal digits.\<close>

function to_string :: "nat \<Rightarrow> string" where
  "to_string n =
     (if n < 10 then [''0123456789'' ! n]
      else to_string (n div 10) @ [''0123456789'' ! (n mod 10)])"
  by pat_completeness auto
termination
  by (relation "measure id") auto

declare to_string.simps [simp del]

text \<open>
  The librealsense stream kinds and pixel formats the node mentions, and the key
  \<^verbatim>\<open>stream_index_pair = std::pair<rs2_stream, int>\<close> used for every per-stream table.
\<close>

datatype rs2_stream =
    RS2_STREAM_ANY | RS2_STREAM_DEPTH | RS2_STREAM_COLOR | RS2_STREAM_INFRARED
  | RS2_STREAM_FISHEYE | RS2_STREAM_GYRO | RS2_STREAM_ACCEL | RS2_STREAM_GPIO
  | RS2_STREAM_POSE | RS2_STREAM_CONFIDENCE

datatype rs2_format = RS2_FORMAT_ANY | RS2_FORMAT_Z16 | RS2_FORMAT_Y8 | RS2_FORMAT_RGB8 | RS2_FORMAT_OTHER nat

type_synonym stream_index_pair = "rs2_stream \<times> int"

text \<open>
  Modelled from the spec: the constants \<^verbatim>\<open>DEPTH\<close>, \<^verbatim>\<open>COLOR\<close>, \<^verbatim>\<open>POSE\<close>, \<^verbatim>\<open>GYRO\<close> and
  \<^verbatim>\<open>ACCEL\<close> are declared in the node's header, which is not among the sources; they are the
  stream identities of the depth, colour, pose, gyroscope and accelerometer streams, each at
  index 0.
\<close>

definition DEPTH :: stream_index_pair where "DEPTH = (RS2_STREAM_DEPTH, 0)"
definition COLOR :: stream_index_pair where "COLOR = (RS2_STREAM_COLOR, 0)"
definition POSE :: stream_index_pair where "POSE = (RS2_STREAM_POSE, 0)"
definition GYRO :: stream_index_pair where "GYRO = (RS2_STREAM_GYRO, 0)"
definition ACCEL :: stream_index_pair where "ACCEL = (RS2_STREAM_ACCEL, 0)"

datatype Vector3d = Vector3d (vec_x: real) (vec_y: real) (vec_z: real)

text \<open>
  \<^verbatim>\<open>sensor_msgs::msg::Imu\<close>, with the fields the synchronisation code fills.  \<open>header_stamp\<close>
  holds the nanosecond count handed to \<^verbatim>\<open>rclcpp::Time\<close>.
\<close>

record Imu =
  header_stamp :: real
  angular_velocity :: Vector3d
  linear_acceleration :: Vector3d

section \<open>SyncedImuPublisher\<close>

text \<open>
  \<open>publisher\<close> is the wrapped ROS publisher, modelled by the list of messages it has delivered
  downstream, oldest first.  \<open>pending_messages\<close> is the \<^verbatim>\<open>std::queue\<close>, front first.
\<close>

record SyncedImuPublisher =
  publisher :: "Imu list"
  pause_mode :: bool
  pending_messages :: "Imu list"
  waiting_list_size :: nat
  is_enabled :: bool

definition Publish :: "Imu \<Rightarrow> SyncedImuPublisher \<Rightarrow> std_exception option \<times> SyncedImuPublisher" where
  "Publish imu_msg s =
     (if pause_mode s then
        (if length (pending_messages s) \<ge> waiting_list_size s then
           (Some (runtime_error (''SyncedImuPublisher inner list reached maximum size of ''
                                   @ to_string (length (pending_messages s)))), s)
         else (None, s\<lparr>pending_messages := pending_messages s @ [imu_msg]\<rparr>))
      else (None, s\<lparr>publisher := publisher s @ [imu_msg]\<rparr>))"

definition Pause :: "SyncedImuPublisher \<Rightarrow> SyncedImuPublisher" where
  "Pause s = (if \<not> is_enabled s then s else s\<lparr>pause_mode := True\<rparr>)"

function PublishPendingMessages :: "SyncedImuPublisher \<Rightarrow> SyncedImuPublisher" where
  "PublishPendingMessages s =
     (if pending_messages s \<noteq> [] then
        PublishPendingMessages
          (s\<lparr>publisher := publisher s @ [hd (pending_messages s)],
             pending_messages := tl (pending_messages s)\<rparr>)
      else s)"
  by pat_completeness auto
termination
  by (relation "measure (\<lambda>s. length (pending_messages s))") auto

declare PublishPendingMessages.simps [simp del]

definition Resume :: "SyncedImuPublisher \<Rightarrow> SyncedImuPublisher" where
  "Resume s = (PublishPendingMessages s)\<lparr>pause_mode := False\<rparr>"

text \<open>A run of \<^verbatim>\<open>Publish\<close> calls, one per message, abandoned at the first call that throws.\<close>

fun Publish_calls :: "Imu list \<Rightarrow> SyncedImuPublisher \<Rightarrow> std_exception option \<times> SyncedImuPublisher" where
  "Publish_calls [] s = (None, s)"
| "Publish_calls (m # ms) s =
     (case Publish m s of
        (Some e, s') \<Rightarrow> (Some e, s')
      | (None, s') \<Rightarrow> Publish_calls ms s')"

section \<open>IMU synchronisation by linear interpolation\<close>

record CimuData =
  m_type :: stream_index_pair
  m_data :: Vector3d
  m_time_ns :: real

text \<open>\<^verbatim>\<open>Eigen::Vector3d\<close> arithmetic used by \<^verbatim>\<open>lerp\<close>: scaling by a scalar and addition.\<close>

definition vec_scale :: "Vector3d \<Rightarrow> real \<Rightarrow> Vector3d" where
  "vec_scale v c = Vector3d (vec_x v * c) (vec_y v * c) (vec_z v * c)"

definition vec_add :: "Vector3d \<Rightarrow> Vector3d \<Rightarrow> Vector3d" where
  "vec_add v w = Vector3d (vec_x v + vec_x w) (vec_y v + vec_y w) (vec_z v + vec_z w)"

definition lerp :: "Vector3d \<Rightarrow> Vector3d \<Rightarrow> real \<Rightarrow> Vector3d" where
  "lerp a b t = vec_add (vec_scale a (1 - t)) (vec_scale b t)"

definition CreateUnitedMessage :: "CimuData \<Rightarrow> CimuData \<Rightarrow> Imu" where
  "CreateUnitedMessage accel_data gyro_data =
     \<lparr>header_stamp = m_time_ns gyro_data,
      angular_velocity = m_data gyro_data,
      linear_acceleration = m_data accel_data\<rparr>"

text \<open>The local variables of \<^verbatim>\<open>FillImuData_LinearInterpolation\<close> and its output deque.\<close>

record interpolation_locals =
  accel0 :: CimuData
  accel1 :: CimuData
  crnt_imu :: CimuData
  gyros_data :: "CimuData list"
  imu_msgs :: "Imu list"

text \<open>
  The inner loop: one united message per queued gyro sample, front first.  \<open>dt\<close> is the
  difference of the two accelerometer times; when it is 0 the C++ quotient is infinite or not a
  number, so what is proved about interpolated values assumes the two times to differ.
\<close>

fun interpolate_gyros :: "CimuData \<Rightarrow> CimuData \<Rightarrow> real \<Rightarrow> CimuData list \<Rightarrow> Imu list \<Rightarrow> Imu list" where
  "interpolate_gyros a0 a1 dt [] msgs = msgs"
| "interpolate_gyros a0 a1 dt (crnt_gyro # gyros) msgs =
     (let alpha = (m_time_ns crnt_gyro - m_time_ns a0) / dt;
          crnt_accel = \<lparr>m_type = ACCEL, m_data = lerp (m_data a0) (m_data a1) alpha,
                        m_time_ns = m_time_ns crnt_gyro\<rparr>
      in interpolate_gyros a0 a1 dt gyros (msgs @ [CreateUnitedMessage crnt_accel crnt_gyro]))"

text \<open>
  The outer loop pops the history front first.  \<^verbatim>\<open>CimuData::is_set\<close> is declared in the
  header, which is not among the sources, so it is a parameter \<open>is_set\<close> of the model; the
  default-constructed \<^verbatim>\<open>CimuData\<close> is the parameter \<open>dflt\<close>.
\<close>

fun drain_history :: "(CimuData \<Rightarrow> bool) \<Rightarrow> CimuData list \<Rightarrow> interpolation_locals \<Rightarrow> interpolation_locals" where
  "drain_history is_set [] l = l"
| "drain_history is_set (front # imu_history) l =
     (let l = l\<lparr>crnt_imu := front\<rparr> in
      if \<not> is_set (accel0 l) \<and> m_type (crnt_imu l) = ACCEL then
        drain_history is_set imu_history (l\<lparr>accel0 := crnt_imu l\<rparr>)
      else if is_set (accel0 l) \<and> m_type (crnt_imu l) = ACCEL then
        (let l = l\<lparr>accel1 := crnt_imu l\<rparr>;
             dt = m_time_ns (accel1 l) - m_time_ns (accel0 l);
             l = l\<lparr>imu_msgs := interpolate_gyros (accel0 l) (accel1 l) dt (gyros_data l) (imu_msgs l),
                    gyros_data := []\<rparr>
         in drain_history is_set imu_history (l\<lparr>accel0 := accel1 l\<rparr>))
      else if is_set (accel0 l) \<and> m_time_ns (crnt_imu l) \<ge> m_time_ns (accel0 l)
              \<and> m_type (crnt_imu l) = GYRO then
        drain_history is_set imu_history (l\<lparr>gyros_data := gyros_data l @ [crnt_imu l]\<rparr>)
      else drain_history is_set imu_history l)"

definition fresh_locals :: "CimuData \<Rightarrow> interpolation_locals" where
  "fresh_locals dflt = \<lparr>accel0 = dflt, accel1 = dflt, crnt_imu = dflt, gyros_data = [], imu_msgs = []\<rparr>"

text \<open>
  The function takes the static history and the arriving sample and returns the output deque
  together with the history it leaves behind.
\<close>

definition FillImuData_LinearInterpolation ::
  "(CimuData \<Rightarrow> bool) \<Rightarrow> CimuData \<Rightarrow> CimuData list \<Rightarrow> CimuData \<Rightarrow> Imu list \<times> CimuData list" where
  "FillImuData_LinearInterpolation is_set dflt imu_history imu_data =
     (let imu_history = imu_history @ [imu_data] in
      if m_type imu_data \<noteq> ACCEL \<or> length imu_history < 3 then ([], imu_history)
      else
        (let l = drain_history is_set imu_history (fresh_locals dflt)
         in (imu_msgs l, [crnt_imu l])))"

text \<open>
  The spec's words for one emitted reading: the gyro sample's time and vector, with the
  accelerometer vector interpolated componentwise, \<open>a\<cdot>(1 - alpha) + b\<cdot>alpha\<close>, at
  \<open>alpha = (gyro_time - accel0_time) / (accel1_time - accel0_time)\<close>.
\<close>

definition interpolated_reading :: "CimuData \<Rightarrow> CimuData \<Rightarrow> CimuData \<Rightarrow> Imu" where
  "interpolated_reading a0 a1 g =
     (let alpha = (m_time_ns g - m_time_ns a0) / (m_time_ns a1 - m_time_ns a0) in
      \<lparr>header_stamp = m_time_ns g,
       angular_velocity = m_data g,
       linear_acceleration =
         Vector3d (vec_x (m_data a0) * (1 - alpha) + vec_x (m_data a1) * alpha)
                  (vec_y (m_data a0) * (1 - alpha) + vec_y (m_data a1) * alpha)
                  (vec_z (m_data a0) * (1 - alpha) + vec_z (m_data a1) * alpha)\<rparr>)"

text \<open>The messages one drain of a whole history emits.\<close>

definition drained_msgs :: "(CimuData \<Rightarrow> bool) \<Rightarrow> CimuData \<Rightarrow> CimuData list \<Rightarrow> Imu list" where
  "drained_msgs is_set dflt h = imu_msgs (drain_history is_set h (fresh_locals dflt))"

text \<open>The three-argument constructor \<^verbatim>\<open>CimuData(type, data, time)\<close>.\<close>

definition CimuData_of :: "stream_index_pair \<Rightarrow> Vector3d \<Rightarrow> real \<Rightarrow> CimuData" where
  "CimuData_of type v time = \<lparr>m_type = type, m_data = v, m_time_ns = time\<rparr>"

text \<open>
  Modelled from the spec: \<^verbatim>\<open>CimuData::is_set\<close> and the default constructor are declared in the
  header, which is not among the sources.  The spec speaks of an unset sentinel for "no prior
  sample yet"; the one sentinel the sources build, in \<^verbatim>\<open>FillImuData_Copy\<close>, is
  \<^verbatim>\<open>CimuData(ACCEL, {0,0,0}, -1.0)\<close>.  The concrete instance below, used only to run the
  model on examples, takes that sentinel as the default value and counts a sample as set when
  its time is not negative.  The theorems hold for every \<open>is_set\<close> and \<open>dflt\<close> that satisfy
  their stated hypotheses.
\<close>

definition unset_sentinel :: CimuData where
  "unset_sentinel = CimuData_of ACCEL (Vector3d 0 0 0) (- 1)"

definition time_is_set :: "CimuData \<Rightarrow> bool" where
  "time_is_set s = (0 \<le> m_time_ns s)"

section \<open>De-duplication of the frame-set for publishing\<close>

text \<open>
  What the loop reads of a frame: its stream profile and whether it is a point cloud
  (\<^verbatim>\<open>f.is<rs2::points>()\<close>).  \<open>unique_id\<close> tells two frames of one identity apart.
\<close>

record stream_profile =
  stream_type :: rs2_stream
  stream_index :: int
  format :: rs2_format
  unique_id :: int

record rs2_frame =
  get_profile :: stream_profile
  is_points :: bool

record dedup_locals =
  points_in_set :: bool
  frames_to_publish :: "rs2_frame list"
  is_in_set :: "stream_index_pair list"
  is_depth_arrived :: bool

definition frame_sip :: "rs2_frame \<Rightarrow> stream_index_pair" where
  "frame_sip f = (stream_type (get_profile f), stream_index (get_profile f))"

fun dedup_loop :: "bool \<Rightarrow> rs2_frame list \<Rightarrow> dedup_locals \<Rightarrow> dedup_locals" where
  "dedup_loop align_depth [] l = l"
| "dedup_loop align_depth (f # frameset) l =
     (if is_points f then
        dedup_loop align_depth frameset
          (if \<not> points_in_set l
           then l\<lparr>points_in_set := True, frames_to_publish := frames_to_publish l @ [f]\<rparr>
           else l)
      else
        (let sip = frame_sip f;
             l = (if sip \<notin> set (is_in_set l)
                  then l\<lparr>is_in_set := is_in_set l @ [sip],
                         frames_to_publish := frames_to_publish l @ [f]\<rparr>
                  else l);
             l = (if align_depth \<and> stream_type (get_profile f) = RS2_STREAM_DEPTH
                       \<and> format (get_profile f) = RS2_FORMAT_Z16
                  then l\<lparr>is_depth_arrived := True\<rparr>
                  else l)
         in dedup_loop align_depth frameset l))"

definition dedup_start :: dedup_locals where
  "dedup_start = \<lparr>points_in_set = False, frames_to_publish = [], is_in_set = [], is_depth_arrived = False\<rparr>"

definition published_frames :: "bool \<Rightarrow> rs2_frame list \<Rightarrow> rs2_frame list" where
  "published_frames align_depth frameset = frames_to_publish (dedup_loop align_depth frameset dedup_start)"

text \<open>A frame given by kind, index, format, profile id and whether it is a point cloud.\<close>

definition frame_of :: "rs2_stream \<Rightarrow> int \<Rightarrow> rs2_format \<Rightarrow> int \<Rightarrow> bool \<Rightarrow> rs2_frame" where
  "frame_of kind idx fmt uid pts =
     \<lparr>get_profile = \<lparr>stream_type = kind, stream_index = idx, format = fmt, unique_id = uid\<rparr>,
      is_points = pts\<rparr>"

section \<open>Floating-point arithmetic\<close>

text \<open>
  A binary floating-point format is given by its precision, the number of bits of the
  significand, and its least exponent: 24 and -126 for \<^verbatim>\<open>float\<close>, 53 and -1022 for \<^verbatim>\<open>double\<close>.
  An operation yields the exact result rounded to the nearest value of the format, a tie going
  to the value with the even significand (the IEEE 754 default, which the node does not change).
  Results beyond the largest finite value, which round to infinity, are not modelled; where such
  a result would be converted to an integer the conversion is undefined for the infinite value
  as it is for the large finite one.
\<close>

record float_format =
  precision :: nat
  emin :: int

definition binary32 :: float_format where
  "binary32 = \<lparr>precision = 24, emin = - 126\<rparr>"

definition binary64 :: float_format where
  "binary64 = \<lparr>precision = 53, emin = - 1022\<rparr>"

text \<open>Rounding to the nearest integer, a tie going to the even one.\<close>

definition round_half_even :: "real \<Rightarrow> int" where
  "round_half_even y =
     (let f = \<lfloor>y\<rfloor> in
      if y - of_int f < 1 / 2 then f
      else if 1 / 2 < y - of_int f then f + 1
      else if even f then f else f + 1)"

text \<open>The exponent \<open>e\<close> of a positive number \<open>x\<close>: the integer with \<open>2\<^sup>e \<le> x < 2\<^sup>e\<^sup>+\<^sup>1\<close>.\<close>

function binary_exponent :: "real \<Rightarrow> int" where
  "binary_exponent x =
     (if x \<le> 0 then 0
      else if 2 \<le> x then binary_exponent (x / 2) + 1
      else if x < 1 then binary_exponent (2 * x) - 1
      else 0)"
  by pat_completeness auto
termination
proof (relation "measure (\<lambda>x. if 1 \<le> x then nat \<lfloor>log 2 x\<rfloor> else nat \<lceil>- log 2 x\<rceil>)")
  show "wf (measure (\<lambda>x. if 1 \<le> x then nat \<lfloor>log 2 x\<rfloor> else nat \<lceil>- log 2 x\<rceil>))" by simp
next
  fix x :: real
  assume a: "\<not> x \<le> 0" "2 \<le> x"
  have l: "log 2 (x / 2) = log 2 x - 1" using a by (simp add: log_divide)
  have "1 \<le> log 2 x" using a by (simp add: le_log_iff)
  then have "1 \<le> \<lfloor>log 2 x\<rfloor>" by simp
  then show "(x / 2, x) \<in> measure (\<lambda>x. if 1 \<le> x then nat \<lfloor>log 2 x\<rfloor> else nat \<lceil>- log 2 x\<rceil>)"
    using a l by simp
next
  fix x :: real
  assume a: "\<not> x \<le> 0" "\<not> 2 \<le> x" "x < 1"
  have l: "log 2 (2 * x) = log 2 x + 1" using a by (simp add: log_mult)
  have neg: "log 2 x < 0" using a by simp
  show "(2 * x, x) \<in> measure (\<lambda>x. if 1 \<le> x then nat \<lfloor>log 2 x\<rfloor> else nat \<lceil>- log 2 x\<rceil>)"
  proof (cases "1 \<le> 2 * x")
    case True
    then have "0 \<le> log 2 (2 * x)" using a by simp
    then have "- 1 \<le> log 2 x" using l by simp
    then have "\<lfloor>log 2 x\<rfloor> = - 1" using neg by (intro floor_unique) simp_all
    then have "\<lfloor>log 2 x + 1\<rfloor> = 0" by simp
    moreover have "0 < \<lceil>- log 2 x\<rceil>" using neg by simp
    ultimately show ?thesis using True a l by simp
  next
    case False
    then have "log 2 (2 * x) < 0" using a by simp
    then have "1 < - log 2 x" using l by simp
    then have "1 < \<lceil>- log 2 x\<rceil>" by (simp add: less_ceiling_iff)
    moreover have "\<lceil>- log 2 x - 1\<rceil> = \<lceil>- log 2 x\<rceil> - 1" by simp
    ultimately show ?thesis using False a l by simp
  qed
qed

declare binary_exponent.simps [simp del]

text \<open>
  The values of a format near a positive \<open>x\<close> are the whole multiples of the quantum of \<open>x\<close>: the
  unit in the last place of the significand, which below \<open>2\<^sup>e\<^sup>m\<^sup>i\<^sup>n\<close> stays that of the least
  exponent (gradual underflow).  A magnitude is rounded to the nearest multiple; a negative
  number is rounded as its magnitude is.
\<close>

definition quantum :: "float_format \<Rightarrow> real \<Rightarrow> real" where
  "quantum fmt x = 2 powi (max (binary_exponent x) (emin fmt) - int (precision fmt) + 1)"

definition round_magnitude :: "float_format \<Rightarrow> real \<Rightarrow> real" where
  "round_magnitude fmt x = of_int (round_half_even (x / quantum fmt x)) * quantum fmt x"

definition fl_round :: "float_format \<Rightarrow> real \<Rightarrow> real" where
  "fl_round fmt x = (if x < 0 then - round_magnitude fmt (- x) else round_magnitude fmt x)"

section \<open>Depth clipping\<close>

text \<open>
  A depth frame: its dimensions and its buffer of 16-bit samples, row after row.
  \<^verbatim>\<open>static_cast<uint16_t>\<close> of a floating-point value truncates towards zero and is defined
  only when the truncated value fits the type; \<open>None\<close> stands for undefined behaviour.
\<close>

record depth_frame =
  get_width :: int
  get_height :: int
  get_data :: "16 word list"

definition truncate_toward_zero :: "real \<Rightarrow> int" where
  "truncate_toward_zero x = (if 0 \<le> x then \<lfloor>x\<rfloor> else \<lceil>x\<rceil>)"

definition static_cast_uint16 :: "real \<Rightarrow> 16 word option" where
  "static_cast_uint16 x =
     (let t = truncate_toward_zero x in
      if 0 \<le> t \<and> t \<le> 65535 then Some (word_of_int t) else None)"

text \<open>
  The inner loop over the \<open>n\<close> remaining pixels of a row, at buffer index \<open>depth_pixel_index\<close>,
  and the outer loop over the \<open>n\<close> remaining rows, at row \<open>y\<close>.
\<close>

fun clip_row :: "16 word \<Rightarrow> nat \<Rightarrow> nat \<Rightarrow> 16 word list \<Rightarrow> 16 word list" where
  "clip_row clipping_value 0 depth_pixel_index p = p"
| "clip_row clipping_value (Suc n) depth_pixel_index p =
     clip_row clipping_value n (Suc depth_pixel_index)
       (if p ! depth_pixel_index > clipping_value then p[depth_pixel_index := 0] else p)"

fun clip_rows :: "16 word \<Rightarrow> nat \<Rightarrow> nat \<Rightarrow> nat \<Rightarrow> 16 word list \<Rightarrow> 16 word list" where
  "clip_rows clipping_value width 0 y p = p"
| "clip_rows clipping_value width (Suc n) y p =
     clip_rows clipping_value width n (Suc y) (clip_row clipping_value width (y * width) p)"

text \<open>
  \<open>depth_scale_meters\<close> is the member \<^verbatim>\<open>_depth_scale_meters\<close> and \<open>clipping_dist\<close> the \<^verbatim>\<open>float\<close>
  argument.  \<^verbatim>\<open>clipping_dist / _depth_scale_meters\<close> is a floating-point division: its value is
  the quotient rounded to the format \<open>fmt\<close> of the division, which is \<open>binary32\<close> when the member
  is declared \<^verbatim>\<open>float\<close> and \<open>binary64\<close> when it is declared \<^verbatim>\<open>double\<close> (the declaration is in
  the class header).  A zero scale makes the quotient infinite or not a number, and a frame
  whose buffer is shorter than width times height is read out of bounds: both are undefined
  behaviour, \<open>None\<close>.
\<close>

definition clip_depth :: "float_format \<Rightarrow> real \<Rightarrow> depth_frame \<Rightarrow> real \<Rightarrow> depth_frame option" where
  "clip_depth fmt depth_scale_meters frame clipping_dist =
     (if depth_scale_meters = 0 then None
      else case static_cast_uint16 (fl_round fmt (clipping_dist / depth_scale_meters)) of
        None \<Rightarrow> None
      | Some clipping_value \<Rightarrow>
          (let width = nat (get_width frame); height = nat (get_height frame) in
           if width * height \<le> length (get_data frame)
           then Some (frame\<lparr>get_data := clip_rows clipping_value width height 0 (get_data frame)\<rparr>)
           else None))"

text \<open>The guard in \<^verbatim>\<open>frame_callback\<close>: the routine runs only for a positive clipping distance.\<close>

definition clip_for_max_range :: "float_format \<Rightarrow> real \<Rightarrow> real \<Rightarrow> depth_frame \<Rightarrow> depth_frame option" where
  "clip_for_max_range fmt depth_scale_meters clipping_distance frame =
     (if clipping_distance > 0 then clip_depth fmt depth_scale_meters frame clipping_distance
      else Some frame)"

section \<open>Time base\<close>

text \<open>
  \<open>ros_time_base\<close> is a \<^verbatim>\<open>rclcpp::Time\<close>, a whole number of nanoseconds; \<open>camera_time_base\<close> is
  the device time of the first frame, a \<^verbatim>\<open>double\<close> in milliseconds.  \<open>now\<close> is the value of
  \<^verbatim>\<open>_node.now()\<close>.
\<close>

record time_base =
  ros_time_base :: int
  camera_time_base :: real

definition setBaseTime :: "int \<Rightarrow> real \<Rightarrow> bool \<Rightarrow> time_base \<Rightarrow> time_base" where
  "setBaseTime now frame_time warn_no_metadata tb =
     tb\<lparr>ros_time_base := now, camera_time_base := frame_time\<rparr>"

text \<open>
  \<^verbatim>\<open>(frame_time - _camera_time_base) * 1e6\<close> in \<^verbatim>\<open>double\<close> arithmetic: the difference is rounded,
  and so is its product with \<^verbatim>\<open>1e6\<close>, which is the \<^verbatim>\<open>double\<close> 1000000.
\<close>

definition elapsed_camera_ns :: "time_base \<Rightarrow> real \<Rightarrow> real" where
  "elapsed_camera_ns tb frame_time =
     fl_round binary64 (fl_round binary64 (frame_time - camera_time_base tb) * 1000000)"

text \<open>
  The stamp \<^verbatim>\<open>imu_callback\<close>, \<^verbatim>\<open>pose_callback\<close> and the single-frame branch of
  \<^verbatim>\<open>frame_callback\<close> compute,
  \<^verbatim>\<open>rclcpp::Time(_ros_time_base + rclcpp::Duration(elapsed_camera_ns))\<close>: the \<^verbatim>\<open>double\<close> is
  converted to the duration's 64-bit nanosecond count, which truncates towards zero.  (Counts
  beyond 64 bits are not modelled.)
\<close>

definition to_host_time :: "time_base \<Rightarrow> real \<Rightarrow> int" where
  "to_host_time tb frame_time = ros_time_base tb + truncate_toward_zero (elapsed_camera_ns tb frame_time)"

text \<open>
  The stamp \<open>t\<close> under which \<^verbatim>\<open>frame_callback\<close> publishes: a frame-set is stamped with the host
  clock at its arrival, \<^verbatim>\<open>_node.now()\<close>, and a single video frame with the converted device
  time.  A frame that is neither is not published.
\<close>

definition frame_callback_stamp :: "int \<Rightarrow> time_base \<Rightarrow> bool \<Rightarrow> real \<Rightarrow> int" where
  "frame_callback_stamp now tb is_frameset frame_time =
     (if is_frameset then now else to_host_time tb frame_time)"

section \<open>Base-stream selection\<close>

text \<open>How a call ends: it returns a value or it throws.\<close>

datatype 'a cpp_result = Returns 'a | Throws std_exception

text \<open>
  The first loop fills \<^verbatim>\<open>available_profiles\<close>, sensor by sensor and profile by profile; a
  stream identity already present is skipped.
\<close>

fun collect_profiles ::
  "stream_profile list \<Rightarrow> (stream_index_pair \<rightharpoonup> stream_profile) \<Rightarrow> (stream_index_pair \<rightharpoonup> stream_profile)" where
  "collect_profiles [] available_profiles = available_profiles"
| "collect_profiles (profile # profiles) available_profiles =
     (let sip = (stream_type profile, stream_index profile) in
      if available_profiles sip \<noteq> None then collect_profiles profiles available_profiles
      else collect_profiles profiles (available_profiles(sip \<mapsto> profile)))"

fun collect_sensors ::
  "stream_profile list list \<Rightarrow> (stream_index_pair \<rightharpoonup> stream_profile) \<Rightarrow> (stream_index_pair \<rightharpoonup> stream_profile)" where
  "collect_sensors [] available_profiles = available_profiles"
| "collect_sensors (sensor # sensors) available_profiles =
     collect_sensors sensors (collect_profiles sensor available_profiles)"

definition base_stream_priority :: "stream_index_pair list" where
  "base_stream_priority = [DEPTH, POSE]"

text \<open>
  The \<^verbatim>\<open>while\<close> loop.  The iterator \<open>base_stream\<close> is the part of the priority vector from its
  position to the end, so \<^verbatim>\<open>end()\<close> is the empty list, \<^verbatim>\<open>base_stream++\<close> is the tail and
  \<^verbatim>\<open>*base_stream\<close> is the head.  The loop condition evaluates
  \<^verbatim>\<open>available_profiles.find(*base_stream)\<close> first and compares the iterator with \<^verbatim>\<open>end()\<close>
  second, so at \<^verbatim>\<open>end()\<close> it reads one element past the vector: \<open>past_end\<close> stands for
  whatever that read yields.  \<^verbatim>\<open>find\<close> does not insert, so the map is the same at every
  iteration.
\<close>

function scan_base_stream ::
  "stream_index_pair \<Rightarrow> (stream_index_pair \<rightharpoonup> stream_profile) \<Rightarrow> stream_index_pair list
     \<Rightarrow> stream_index_pair list" where
  "scan_base_stream past_end available_profiles base_stream =
     (if available_profiles (case base_stream of [] \<Rightarrow> past_end | sip # _ \<Rightarrow> sip) = None
         \<and> base_stream \<noteq> []
      then scan_base_stream past_end available_profiles (tl base_stream)
      else base_stream)"
  by pat_completeness auto
termination
  by (relation "measure (\<lambda>(past_end, available_profiles, base_stream). length base_stream)") auto

declare scan_base_stream.simps [simp del]

text \<open>
  After the loop the function throws if the iterator is \<^verbatim>\<open>end()\<close> and otherwise stores
  \<^verbatim>\<open>available_profiles[*base_stream]\<close>, which would insert a default-constructed profile for
  an absent key.
\<close>

definition null_profile :: stream_profile where
  "null_profile = \<lparr>stream_type = RS2_STREAM_ANY, stream_index = 0, format = RS2_FORMAT_ANY, unique_id = 0\<rparr>"

definition SetBaseStream :: "stream_index_pair \<Rightarrow> stream_profile list list \<Rightarrow> stream_profile cpp_result" where
  "SetBaseStream past_end available_ros_sensors =
     (let available_profiles = collect_sensors available_ros_sensors Map.empty in
      case scan_base_stream past_end available_profiles base_stream_priority of
        [] \<Rightarrow> Throws (runtime_error ''No known base_stream found for transformations.'')
      | sip # _ \<Rightarrow>
          Returns (case available_profiles sip of Some profile \<Rightarrow> profile | None \<Rightarrow> null_profile))"

text \<open>A profile given by kind and index.\<close>

definition profile_of :: "rs2_stream \<Rightarrow> int \<Rightarrow> stream_profile" where
  "profile_of kind idx = \<lparr>stream_type = kind, stream_index = idx, format = RS2_FORMAT_ANY, unique_id = 0\<rparr>"

section \<open>Calibration records\<close>

datatype rs2_distortion =
    RS2_DISTORTION_NONE | RS2_DISTORTION_MODIFIED_BROWN_CONRADY | RS2_DISTORTION_INVERSE_BROWN_CONRADY
  | RS2_DISTORTION_FTHETA | RS2_DISTORTION_BROWN_CONRADY | RS2_DISTORTION_KANNALA_BRANDT4

record rs2_intrinsics =
  width :: int
  height :: int
  ppx :: real
  ppy :: real
  fx :: real
  fy :: real
  model :: rs2_distortion
  coeffs :: "real list"

record rs2_extrinsics =
  rotation :: "real list"
  translation :: "real list"

record video_stream_profile = stream_profile +
  get_intrinsics :: rs2_intrinsics

text \<open>
  \<^verbatim>\<open>sensor_msgs::msg::CameraInfo\<close>: \<open>info_k\<close>, \<open>info_r\<close> and \<open>info_p\<close> are its arrays \<^verbatim>\<open>k\<close> (3x3),
  \<^verbatim>\<open>r\<close> (3x3) and \<^verbatim>\<open>p\<close> (3x4), row-major; \<open>info_d\<close> is the vector \<^verbatim>\<open>d\<close>.
\<close>

record CameraInfo =
  info_width :: int
  info_height :: int
  header_frame_id :: string
  info_k :: "real list"
  info_r :: "real list"
  info_p :: "real list"
  info_d :: "real list"
  distortion_model :: string

text \<open>
  The tables \<^verbatim>\<open>_stream_intrinsics\<close> and \<^verbatim>\<open>_camera_info\<close> are \<^verbatim>\<open>std::map\<close>s read with
  \<^verbatim>\<open>operator[]\<close>, which gives an absent key a value-initialised entry: total functions.
\<close>

record calibration =
  stream_intrinsics :: "stream_index_pair \<Rightarrow> rs2_intrinsics option"
  camera_info :: "stream_index_pair \<Rightarrow> CameraInfo"

definition empty_CameraInfo :: CameraInfo where
  "empty_CameraInfo =
     \<lparr>info_width = 0, info_height = 0, header_frame_id = [], info_k = replicate 9 0,
      info_r = replicate 9 0, info_p = replicate 12 0, info_d = [], distortion_model = []\<rparr>"

text \<open>
  \<open>optical_frame_id\<close> is the macro \<^verbatim>\<open>OPTICAL_FRAME_ID\<close> and \<open>enable\<close> the table \<^verbatim>\<open>_enable\<close>; both
  are declared in the header, which is not among the sources, and are parameters.
\<close>

definition updateStreamCalibData ::
  "(stream_index_pair \<Rightarrow> string) \<Rightarrow> (stream_index_pair \<Rightarrow> bool) \<Rightarrow> video_stream_profile
     \<Rightarrow> calibration \<Rightarrow> calibration" where
  "updateStreamCalibData optical_frame_id enable video_profile c =
     (let stream_idx = (stream_type video_profile, stream_index video_profile);
          intrinsic = get_intrinsics video_profile;
          ci = camera_info c stream_idx;
          ci = ci\<lparr>info_width := width intrinsic, info_height := height intrinsic,
                  header_frame_id := optical_frame_id stream_idx\<rparr>;
          ci = ci\<lparr>info_k := (info_k ci)[0 := fx intrinsic, 2 := ppx intrinsic, 4 := fy intrinsic,
                                        5 := ppy intrinsic, 8 := 1]\<rparr>;
          ci = ci\<lparr>info_p := (info_p ci)[0 := info_k ci ! 0, 1 := 0, 2 := info_k ci ! 2, 3 := 0,
                                        4 := 0, 5 := info_k ci ! 4, 6 := info_k ci ! 5, 7 := 0,
                                        8 := 0, 9 := 0, 10 := 1, 11 := 0]\<rparr>;
          ci = ci\<lparr>distortion_model :=
                    (if model intrinsic = RS2_DISTORTION_KANNALA_BRANDT4 then ''equidistant''
                     else ''plumb_bob'')\<rparr>;
          ci = ci\<lparr>info_r := (info_r ci)[0 := 1, 1 := 0, 2 := 0, 3 := 0, 4 := 1, 5 := 0,
                                        6 := 0, 7 := 0, 8 := 1]\<rparr>;
          ci = ci\<lparr>info_d := map (\<lambda>i. coeffs intrinsic ! i) [0..<5]\<rparr>;
          ci = (if stream_idx = DEPTH \<and> enable DEPTH \<and> enable COLOR
                then ci\<lparr>info_p := (info_p ci)[3 := 0, 7 := 0]\<rparr> else ci)
      in c\<lparr>stream_intrinsics := (stream_intrinsics c)(stream_idx := Some intrinsic),
           camera_info := (camera_info c)(stream_idx := ci)\<rparr>)"

text \<open>
  The 3x4 matrix \<open>[R | T]\<close> built from the row-major rotation and the translation, and the
  product of the 3x3 matrix \<open>K\<close> with it.
\<close>

definition RT_entry :: "real list \<Rightarrow> real list \<Rightarrow> nat \<Rightarrow> nat \<Rightarrow> real" where
  "RT_entry R T i j = (if j < 3 then R ! (3 * i + j) else T ! i)"

definition P_entry :: "real list \<Rightarrow> real list \<Rightarrow> real list \<Rightarrow> nat \<Rightarrow> nat \<Rightarrow> real" where
  "P_entry K R T i j =
     K ! (3 * i) * RT_entry R T 0 j + K ! (3 * i + 1) * RT_entry R T 1 j
       + K ! (3 * i + 2) * RT_entry R T 2 j"

text \<open>
  \<open>get_extrinsics_to\<close> is the device's answer to \<^verbatim>\<open>right.get_extrinsics_to(left)\<close>, a
  parameter.  The function writes the nine entries of \<^verbatim>\<open>r\<close> and the twelve entries of \<^verbatim>\<open>p\<close>
  of the right record, one by one.
\<close>

definition updateExtrinsicsCalibData ::
  "(video_stream_profile \<Rightarrow> video_stream_profile \<Rightarrow> rs2_extrinsics)
     \<Rightarrow> video_stream_profile \<Rightarrow> video_stream_profile \<Rightarrow> calibration \<Rightarrow> calibration" where
  "updateExtrinsicsCalibData get_extrinsics_to left_video_profile right_video_profile c =
     (let right = (stream_type right_video_profile, stream_index right_video_profile);
          LEFT_T_RIGHT = get_extrinsics_to right_video_profile left_video_profile;
          R = rotation LEFT_T_RIGHT;
          T = (translation LEFT_T_RIGHT)[1 := 0, 2 := 0];
          K_right = info_k (camera_info c right);
          ci = camera_info c right;
          ci = ci\<lparr>info_r := (info_r ci)[0 := R ! 0, 1 := R ! 1, 2 := R ! 2, 3 := R ! 3, 4 := R ! 4,
                                        5 := R ! 5, 6 := R ! 6, 7 := R ! 7, 8 := R ! 8]\<rparr>;
          ci = ci\<lparr>info_p := (info_p ci)
                    [0 := P_entry K_right R T 0 0, 1 := P_entry K_right R T 0 1,
                     2 := P_entry K_right R T 0 2, 3 := P_entry K_right R T 0 3,
                     4 := P_entry K_right R T 1 0, 5 := P_entry K_right R T 1 1,
                     6 := P_entry K_right R T 1 2, 7 := P_entry K_right R T 1 3,
                     8 := P_entry K_right R T 2 0, 9 := P_entry K_right R T 2 1,
                     10 := P_entry K_right R T 2 2, 11 := P_entry K_right R T 2 3]\<rparr>
      in c\<lparr>camera_info := (camera_info c)(right := ci)\<rparr>)"

text \<open>
  \<^verbatim>\<open>updateProfilesStreamCalibData\<close>: every video profile is updated on its own, the last profile
  of index 1 is the left one and the last of index 2 the right one, and the pair is updated when
  both were seen.  A profile that is not a video profile is \<open>None\<close>.
\<close>

record profiles_locals =
  left_profile :: "video_stream_profile option"
  right_profile :: "video_stream_profile option"
  calib :: calibration

fun profiles_loop ::
  "(stream_index_pair \<Rightarrow> string) \<Rightarrow> (stream_index_pair \<Rightarrow> bool) \<Rightarrow> video_stream_profile option list
     \<Rightarrow> profiles_locals \<Rightarrow> profiles_locals" where
  "profiles_loop optical_frame_id enable [] l = l"
| "profiles_loop optical_frame_id enable (None # profiles) l =
     profiles_loop optical_frame_id enable profiles l"
| "profiles_loop optical_frame_id enable (Some profile # profiles) l =
     (let l = l\<lparr>calib := updateStreamCalibData optical_frame_id enable profile (calib l)\<rparr>;
          l = (if stream_index profile = 1 then l\<lparr>left_profile := Some profile\<rparr> else l);
          l = (if stream_index profile = 2 then l\<lparr>right_profile := Some profile\<rparr> else l)
      in profiles_loop optical_frame_id enable profiles l)"

definition updateProfilesStreamCalibData ::
  "(stream_index_pair \<Rightarrow> string) \<Rightarrow> (stream_index_pair \<Rightarrow> bool)
     \<Rightarrow> (video_stream_profile \<Rightarrow> video_stream_profile \<Rightarrow> rs2_extrinsics)
     \<Rightarrow> video_stream_profile option list \<Rightarrow> calibration \<Rightarrow> calibration" where
  "updateProfilesStreamCalibData optical_frame_id enable get_extrinsics_to profiles c =
     (let l = profiles_loop optical_frame_id enable profiles
                \<lparr>left_profile = None, right_profile = None, calib = c\<rparr>
      in case (left_profile l, right_profile l) of
           (Some left, Some right) \<Rightarrow> updateExtrinsicsCalibData get_extrinsics_to left right (calib l)
         | _ \<Rightarrow> calib l)"

text \<open>Fixtures: an empty calibration and a video profile given by kind, index and intrinsics.\<close>

definition empty_calibration :: calibration where
  "empty_calibration = \<lparr>stream_intrinsics = (\<lambda>s. None), camera_info = (\<lambda>s. empty_CameraInfo)\<rparr>"

definition video_profile_of :: "rs2_stream \<Rightarrow> int \<Rightarrow> real \<Rightarrow> real \<Rightarrow> real \<Rightarrow> real \<Rightarrow> video_stream_profile" where
  "video_profile_of kind idx focal_x focal_y centre_x centre_y =
     \<lparr>stream_type = kind, stream_index = idx, format = RS2_FORMAT_Y8, unique_id = idx,
      get_intrinsics = \<lparr>width = 640, height = 480, ppx = centre_x, ppy = centre_y, fx = focal_x,
                        fy = focal_y, model = RS2_DISTORTION_BROWN_CONRADY, coeffs = [0, 0, 0, 0, 0]\<rparr>\<rparr>"

text \<open>
  A stereo pair for examples: identity rotation, a baseline of -0.05 with small vertical and
  depth offsets, and the calibration after the per-stream update of both profiles.
\<close>

definition stereo_extrinsics :: "video_stream_profile \<Rightarrow> video_stream_profile \<Rightarrow> rs2_extrinsics" where
  "stereo_extrinsics from_profile to_profile =
     \<lparr>rotation = [1, 0, 0, 0, 1, 0, 0, 0, 1], translation = [- 1 / 20, 3 / 1000, 1 / 1000]\<rparr>"

definition stereo_calibration :: calibration where
  "stereo_calibration =
     updateStreamCalibData (\<lambda>s. ''camera_optical_frame'') (\<lambda>s. True)
       (video_profile_of RS2_STREAM_INFRARED 2 610 615 322 242)
       (updateStreamCalibData (\<lambda>s. ''camera_optical_frame'') (\<lambda>s. True)
          (video_profile_of RS2_STREAM_INFRARED 1 600 600 320 240) empty_calibration)"

section \<open>The frame callback\<close>

text \<open>
  The node as the callback sees it: the gated publisher, the error log and the rest of the
  node's state.  \<open>processing\<close> is the body of the \<^verbatim>\<open>try\<close> block (time base, depth clip, filter
  chain, de-duplication, publishing): it returns the state in which it ended and the
  \<^verbatim>\<open>std::exception\<close> it threw, if any.  Exceptions are \<^verbatim>\<open>std::exception\<close> values, the type the
  \<^verbatim>\<open>catch\<close> clause names and every \<^verbatim>\<open>throw\<close> of the sources raises.
\<close>

record 'a node_state =
  synced_imu_publisher :: SyncedImuPublisher
  error_log :: "string list"
  node_rest :: 'a

fun what :: "std_exception \<Rightarrow> string" where
  "what (runtime_error msg) = msg"
| "what (out_of_range msg) = msg"

definition frame_callback ::
  "('a node_state \<Rightarrow> std_exception option \<times> 'a node_state) \<Rightarrow> 'a node_state
     \<Rightarrow> std_exception option \<times> 'a node_state" where
  "frame_callback processing n =
     (let n = n\<lparr>synced_imu_publisher := Pause (synced_imu_publisher n)\<rparr>;
          (thrown, n) = processing n;
          n = (case thrown of
                 None \<Rightarrow> n
               | Some ex \<Rightarrow>
                   n\<lparr>error_log := error_log n
                        @ [''An error has occurred during frame callback: '' @ what ex]\<rparr>)
      in (None, n\<lparr>synced_imu_publisher := Resume (synced_imu_publisher n)\<rparr>))"

section \<open>Properties of SyncedImuPublisher\<close>

lemma PublishPendingMessages_flush:
  "PublishPendingMessages s = s\<lparr>publisher := publisher s @ pending_messages s, pending_messages := []\<rparr>"
proof (induction s rule: PublishPendingMessages.induct)
  case (1 s)
  show ?case
  proof (cases "pending_messages s")
    case Nil
    then show ?thesis by (subst PublishPendingMessages.simps) simp
  next
    case (Cons m q)
    with 1 show ?thesis by (subst PublishPendingMessages.simps) simp
  qed
qed

lemma Resume_flush:
  "Resume s = s\<lparr>publisher := publisher s @ pending_messages s, pending_messages := [], pause_mode := False\<rparr>"
  by (simp add: Resume_def PublishPendingMessages_flush)

lemma Publish_calls_paused:
  "pause_mode s \<Longrightarrow> length (pending_messages s) + length ms \<le> waiting_list_size s \<Longrightarrow>
   Publish_calls ms s = (None, s\<lparr>pending_messages := pending_messages s @ ms\<rparr>)"
proof (induction ms arbitrary: s)
  case Nil
  then show ?case by simp
next
  case (Cons m ms)
  let ?s' = "s\<lparr>pending_messages := pending_messages s @ [m]\<rparr>"
  from Cons.prems have "Publish m s = (None, ?s')"
    by (simp add: Publish_def)
  moreover from Cons.prems have "Publish_calls ms ?s' = (None, ?s'\<lparr>pending_messages := pending_messages ?s' @ ms\<rparr>)"
    by (intro Cons.IH) simp_all
  ultimately show ?case by simp
qed

text \<open>
  C2.  While the gate is paused and its queue is empty, \<open>N\<close> calls of \<^verbatim>\<open>Publish\<close>, \<open>N\<close> the
  configured waiting-list size, all return normally, deliver nothing and leave the \<open>N\<close> messages
  queued in submission order; a further \<^verbatim>\<open>Publish\<close> while still paused throws and neither
  enqueues nor delivers; \<^verbatim>\<open>Resume\<close> then delivers exactly the \<open>N\<close> messages in submission
  order, empties the queue and leaves the paused mode; and a message published after the
  \<^verbatim>\<open>Resume\<close> is delivered directly, after all of them.
\<close>

theorem C2_gate_order_and_capacity:
  assumes "pause_mode s" and "pending_messages s = []" and "length ms = waiting_list_size s"
  shows "Publish_calls ms s = (None, s\<lparr>pending_messages := ms\<rparr>)
       \<and> (\<exists>e. Publish extra (s\<lparr>pending_messages := ms\<rparr>) = (Some e, s\<lparr>pending_messages := ms\<rparr>))
       \<and> publisher (Resume (s\<lparr>pending_messages := ms\<rparr>)) = publisher s @ ms
       \<and> pending_messages (Resume (s\<lparr>pending_messages := ms\<rparr>)) = []
       \<and> \<not> pause_mode (Resume (s\<lparr>pending_messages := ms\<rparr>))
       \<and> (\<exists>s'. Publish later (Resume (s\<lparr>pending_messages := ms\<rparr>)) = (None, s')
              \<and> publisher s' = publisher s @ ms @ [later])"
proof -
  have "Publish_calls ms s = (None, s\<lparr>pending_messages := pending_messages s @ ms\<rparr>)"
    using assms by (intro Publish_calls_paused) simp_all
  then have calls: "Publish_calls ms s = (None, s\<lparr>pending_messages := ms\<rparr>)"
    using assms(2) by simp
  have full: "\<exists>e. Publish extra (s\<lparr>pending_messages := ms\<rparr>) = (Some e, s\<lparr>pending_messages := ms\<rparr>)"
    using assms by (simp add: Publish_def)
  have later: "\<exists>s'. Publish later (Resume (s\<lparr>pending_messages := ms\<rparr>)) = (None, s')
              \<and> publisher s' = publisher s @ ms @ [later]"
    by (simp add: Publish_def Resume_flush)
  show ?thesis
    using calls full later by (simp add: Resume_flush)
qed

theorem C2_gate_witness:
  "Publish_calls
     [\<lparr>header_stamp = 1, angular_velocity = Vector3d 0 0 0, linear_acceleration = Vector3d 0 0 0\<rparr>,
      \<lparr>header_stamp = 2, angular_velocity = Vector3d 0 0 0, linear_acceleration = Vector3d 0 0 0\<rparr>]
     \<lparr>publisher = [], pause_mode = True, pending_messages = [], waiting_list_size = 2, is_enabled = True\<rparr>
   = (None,
      \<lparr>publisher = [], pause_mode = True,
       pending_messages =
         [\<lparr>header_stamp = 1, angular_velocity = Vector3d 0 0 0, linear_acceleration = Vector3d 0 0 0\<rparr>,
          \<lparr>header_stamp = 2, angular_velocity = Vector3d 0 0 0, linear_acceleration = Vector3d 0 0 0\<rparr>],
       waiting_list_size = 2, is_enabled = True\<rparr>)
   \<and> publisher (Resume
      \<lparr>publisher = [], pause_mode = True,
       pending_messages =
         [\<lparr>header_stamp = 1, angular_velocity = Vector3d 0 0 0, linear_acceleration = Vector3d 0 0 0\<rparr>,
          \<lparr>header_stamp = 2, angular_velocity = Vector3d 0 0 0, linear_acceleration = Vector3d 0 0 0\<rparr>],
       waiting_list_size = 2, is_enabled = True\<rparr>)
     = [\<lparr>header_stamp = 1, angular_velocity = Vector3d 0 0 0, linear_acceleration = Vector3d 0 0 0\<rparr>,
        \<lparr>header_stamp = 2, angular_velocity = Vector3d 0 0 0, linear_acceleration = Vector3d 0 0 0\<rparr>]"
  using C2_gate_order_and_capacity
     [of "\<lparr>publisher = [], pause_mode = True, pending_messages = [], waiting_list_size = 2, is_enabled = True\<rparr>"
         "[\<lparr>header_stamp = 1, angular_velocity = Vector3d 0 0 0, linear_acceleration = Vector3d 0 0 0\<rparr>,
           \<lparr>header_stamp = 2, angular_velocity = Vector3d 0 0 0, linear_acceleration = Vector3d 0 0 0\<rparr>]"]
  by simp

text \<open>
  C9.  A \<^verbatim>\<open>Publish\<close> on a paused gate whose queue already holds the maximum number of
  messages throws and returns the publisher exactly as it was: the same queue in the same
  order, nothing delivered, still paused.
\<close>

theorem C9_overflow_leaves_state:
  assumes "pause_mode s" and "waiting_list_size s \<le> length (pending_messages s)"
  shows "Publish imu_msg s =
           (Some (runtime_error (''SyncedImuPublisher inner list reached maximum size of ''
                                   @ to_string (length (pending_messages s)))), s)"
  using assms by (simp add: Publish_def)

theorem C9_overflow_witness:
  "Publish \<lparr>header_stamp = 3, angular_velocity = Vector3d 0 0 0, linear_acceleration = Vector3d 0 0 0\<rparr>
     \<lparr>publisher = [], pause_mode = True,
      pending_messages =
        [\<lparr>header_stamp = 1, angular_velocity = Vector3d 0 0 0, linear_acceleration = Vector3d 0 0 0\<rparr>],
      waiting_list_size = 1, is_enabled = True\<rparr>
   = (Some (runtime_error ''SyncedImuPublisher inner list reached maximum size of 1''),
      \<lparr>publisher = [], pause_mode = True,
       pending_messages =
         [\<lparr>header_stamp = 1, angular_velocity = Vector3d 0 0 0, linear_acceleration = Vector3d 0 0 0\<rparr>],
       waiting_list_size = 1, is_enabled = True\<rparr>)"
  using C9_overflow_leaves_state
     [of "\<lparr>publisher = [], pause_mode = True,
           pending_messages =
             [\<lparr>header_stamp = 1, angular_velocity = Vector3d 0 0 0, linear_acceleration = Vector3d 0 0 0\<rparr>],
           waiting_list_size = 1, is_enabled = True\<rparr>"
         "\<lparr>header_stamp = 3, angular_velocity = Vector3d 0 0 0, linear_acceleration = Vector3d 0 0 0\<rparr>"]
  by (simp add: to_string.simps)

section \<open>Properties of the linear-interpolation policy\<close>

lemma interpolate_gyros_map:
  "interpolate_gyros a0 a1 (m_time_ns a1 - m_time_ns a0) gs msgs = msgs @ map (interpolated_reading a0 a1) gs"
  by (induction gs arbitrary: msgs)
     (simp_all add: interpolated_reading_def CreateUnitedMessage_def lerp_def vec_add_def vec_scale_def Let_def)

lemma interpolate_gyros_acc:
  "interpolate_gyros a0 a1 dt gs (p @ msgs) = p @ interpolate_gyros a0 a1 dt gs msgs"
  by (induction gs arbitrary: msgs) (simp_all add: Let_def)

lemma drain_history_append:
  "drain_history is_set (h1 @ h2) l = drain_history is_set h2 (drain_history is_set h1 l)"
  by (induction h1 arbitrary: l) (simp_all add: Let_def)

lemma crnt_imu_drain:
  "h \<noteq> [] \<Longrightarrow> crnt_imu (drain_history is_set h l) = last h"
proof (induction h arbitrary: l)
  case Nil then show ?case by simp
next
  case (Cons c h)
  show ?case
  proof (cases "h = []")
    case True then show ?thesis by (simp add: Let_def)
  next
    case False
    with Cons.IH show ?thesis by (simp add: Let_def)
  qed
qed

lemma drain_msgs_core:
  "accel0 l = accel0 l' \<Longrightarrow> gyros_data l = gyros_data l' \<Longrightarrow> imu_msgs l = p @ imu_msgs l' \<Longrightarrow>
   imu_msgs (drain_history is_set h l) = p @ imu_msgs (drain_history is_set h l')"
proof (induction h arbitrary: l l')
  case Nil
  then show ?case by simp
next
  case (Cons c h)
  show ?case
    using Cons.prems
    by (auto simp add: Let_def interpolate_gyros_acc intro!: Cons.IH)
qed

lemma drain_one_accel:
  assumes "\<not> is_set (accel0 l) \<longrightarrow> gyros_data l = []" and "m_type c = ACCEL"
  shows "accel0 (drain_history is_set [c] l) = c"
    and "gyros_data (drain_history is_set [c] l) = []"
  using assms by (auto simp add: Let_def)

lemma drain_keeps_inv:
  "(\<not> is_set (accel0 l) \<longrightarrow> gyros_data l = []) \<Longrightarrow>
   (\<not> is_set (accel0 (drain_history is_set h l)) \<longrightarrow> gyros_data (drain_history is_set h l) = [])"
proof (induction h arbitrary: l)
  case Nil
  then show ?case by simp
next
  case (Cons c h)
  show ?case
    using Cons.prems by (auto simp add: Let_def intro!: Cons.IH [rule_format])
qed

lemma ACCEL_neq_GYRO: "ACCEL \<noteq> GYRO"
  by (simp add: ACCEL_def GYRO_def)

lemma drain_gyros:
  assumes "is_set (accel0 l)" and "\<forall>g\<in>set gs. m_type g = GYRO"
  shows "accel0 (drain_history is_set gs l) = accel0 l
       \<and> gyros_data (drain_history is_set gs l)
           = gyros_data l @ filter (\<lambda>g. m_time_ns (accel0 l) \<le> m_time_ns g) gs
       \<and> imu_msgs (drain_history is_set gs l) = imu_msgs l"
  using assms
proof (induction gs arbitrary: l)
  case Nil
  then show ?case by simp
next
  case (Cons g gs)
  have g: "m_type g = GYRO" using Cons.prems by simp
  show ?case
  proof (cases "m_time_ns (accel0 l) \<le> m_time_ns g")
    case True
    let ?l = "l\<lparr>crnt_imu := g, gyros_data := gyros_data l @ [g]\<rparr>"
    have step: "drain_history is_set (g # gs) l = drain_history is_set gs ?l"
      using Cons.prems(1) g True ACCEL_neq_GYRO by (simp add: Let_def)
    have "is_set (accel0 ?l)" using Cons.prems(1) by simp
    from Cons.IH [OF this] Cons.prems(2) show ?thesis
      unfolding step using True by simp
  next
    case False
    let ?l = "l\<lparr>crnt_imu := g\<rparr>"
    have step: "drain_history is_set (g # gs) l = drain_history is_set gs ?l"
      using Cons.prems(1) g False ACCEL_neq_GYRO by (simp add: Let_def)
    have "is_set (accel0 ?l)" using Cons.prems(1) by simp
    from Cons.IH [OF this] Cons.prems(2) show ?thesis
      unfolding step using False by simp
  qed
qed

lemma drain_second_accel:
  assumes "is_set (accel0 l)" and "m_type c = ACCEL"
  shows "accel0 (drain_history is_set [c] l) = c"
    and "gyros_data (drain_history is_set [c] l) = []"
    and "imu_msgs (drain_history is_set [c] l)
           = imu_msgs l @ map (interpolated_reading (accel0 l) c) (gyros_data l)"
  using assms by (simp_all add: Let_def interpolate_gyros_map)

lemma drained_msgs_split:
  assumes unset: "\<not> is_set dflt"
    and a0: "m_type a0 = ACCEL" "is_set a0"
    and a1: "m_type a1 = ACCEL"
    and gs: "\<forall>g\<in>set gs. m_type g = GYRO"
  shows "drained_msgs is_set dflt (pre @ a0 # gs @ a1 # post)
       = drained_msgs is_set dflt (pre @ [a0])
         @ map (interpolated_reading a0 a1) (filter (\<lambda>g. m_time_ns a0 \<le> m_time_ns g) gs)
         @ drained_msgs is_set dflt (a1 # post)"
proof -
  let ?S = "fresh_locals dflt"
  let ?l0 = "drain_history is_set pre ?S"
  let ?l1 = "drain_history is_set [a0] ?l0"
  let ?l2 = "drain_history is_set gs ?l1"
  let ?l3 = "drain_history is_set [a1] ?l2"
  let ?seg = "map (interpolated_reading a0 a1) (filter (\<lambda>g. m_time_ns a0 \<le> m_time_ns g) gs)"
  have inv0: "\<not> is_set (accel0 ?l0) \<longrightarrow> gyros_data ?l0 = []"
    by (rule drain_keeps_inv) (simp add: fresh_locals_def)
  have l1: "accel0 ?l1 = a0" "gyros_data ?l1 = []"
    using drain_one_accel [of is_set ?l0 a0, OF inv0 a0(1)] by simp_all
  have set1: "is_set (accel0 ?l1)" using l1 a0 by simp
  have l2: "accel0 ?l2 = a0" "gyros_data ?l2 = filter (\<lambda>g. m_time_ns a0 \<le> m_time_ns g) gs"
           "imu_msgs ?l2 = imu_msgs ?l1"
    using drain_gyros [of is_set ?l1 gs, OF set1 gs] l1 by simp_all
  have set2: "is_set (accel0 ?l2)" using l2 a0 by simp
  have l3: "accel0 ?l3 = a1" "gyros_data ?l3 = []" "imu_msgs ?l3 = imu_msgs ?l1 @ ?seg"
    using drain_second_accel [of is_set ?l2 a1, OF set2 a1] l2 by simp_all
  let ?f = "drain_history is_set [a1] ?S"
  have f: "accel0 ?f = a1" "gyros_data ?f = []" "imu_msgs ?f = []"
    using unset a1 by (simp_all add: fresh_locals_def Let_def)
  have whole: "drain_history is_set (pre @ a0 # gs @ a1 # post) ?S = drain_history is_set post ?l3"
    using drain_history_append [of is_set "pre" "[a0] @ gs @ [a1] @ post" ?S]
          drain_history_append [of is_set "[a0]" "gs @ [a1] @ post" ?l0]
          drain_history_append [of is_set "gs" "[a1] @ post" ?l1]
          drain_history_append [of is_set "[a1]" "post" ?l2]
    by simp
  have "imu_msgs (drain_history is_set post ?l3)
          = (imu_msgs ?l1 @ ?seg) @ imu_msgs (drain_history is_set post ?f)"
    by (rule drain_msgs_core) (simp_all only: l3 f append_Nil2)
  moreover have "drain_history is_set post ?f = drain_history is_set (a1 # post) ?S"
    using drain_history_append [of is_set "[a1]" post ?S] by simp
  moreover have "?l1 = drain_history is_set (pre @ [a0]) ?S"
    by (simp add: drain_history_append)
  ultimately show ?thesis
    unfolding drained_msgs_def whole by simp
qed

text \<open>
  C1.  On an accelerometer arrival that makes the history at least three long, take any two
  consecutive accelerometer samples \<open>a0\<close>, \<open>a1\<close> of the history, with the gyro samples \<open>gs\<close>
  that arrived between them.  The emitted list is the readings of the earlier pairs, then one
  reading for each sample of \<open>gs\<close> whose time is at or after that of \<open>a0\<close>, in arrival order,
  each carrying the gyro sample's time and vector and the accelerometer vector interpolated
  linearly between \<open>a0\<close> and \<open>a1\<close> at that time, then the readings of the later pairs.
  \<open>a0\<close> counts as set and the two accelerometer times differ.
\<close>

theorem C1_linear_interpolation:
  assumes "\<not> is_set dflt"
    and "m_type imu_data = ACCEL" and "3 \<le> length (imu_history @ [imu_data])"
    and "imu_history @ [imu_data] = pre @ a0 # gs @ a1 # post"
    and "m_type a0 = ACCEL" and "is_set a0" and "m_type a1 = ACCEL"
    and "\<forall>g\<in>set gs. m_type g = GYRO"
    and "m_time_ns a0 \<noteq> m_time_ns a1"
  shows "fst (FillImuData_LinearInterpolation is_set dflt imu_history imu_data)
       = drained_msgs is_set dflt (pre @ [a0])
         @ map (interpolated_reading a0 a1) (filter (\<lambda>g. m_time_ns a0 \<le> m_time_ns g) gs)
         @ drained_msgs is_set dflt (a1 # post)"
proof -
  have "fst (FillImuData_LinearInterpolation is_set dflt imu_history imu_data)
          = drained_msgs is_set dflt (imu_history @ [imu_data])"
    using assms(2,3) by (simp add: FillImuData_LinearInterpolation_def drained_msgs_def Let_def)
  also have "\<dots> = drained_msgs is_set dflt (pre @ a0 # gs @ a1 # post)"
    using assms(4) by simp
  finally show ?thesis
    using drained_msgs_split [of is_set dflt a0 a1 gs pre post] assms by simp
qed

theorem C1_interpolation_witness:
  "fst (FillImuData_LinearInterpolation time_is_set unset_sentinel
          [CimuData_of ACCEL (Vector3d 0 0 0) 0, CimuData_of GYRO (Vector3d 1 2 3) 5]
          (CimuData_of ACCEL (Vector3d 10 10 10) 10))
   = [\<lparr>header_stamp = 5, angular_velocity = Vector3d 1 2 3, linear_acceleration = Vector3d 5 5 5\<rparr>]"
  using C1_linear_interpolation
     [of time_is_set unset_sentinel "CimuData_of ACCEL (Vector3d 10 10 10) 10"
         "[CimuData_of ACCEL (Vector3d 0 0 0) 0, CimuData_of GYRO (Vector3d 1 2 3) 5]"
         "[]" "CimuData_of ACCEL (Vector3d 0 0 0) 0" "[CimuData_of GYRO (Vector3d 1 2 3) 5]"
         "CimuData_of ACCEL (Vector3d 10 10 10) 10" "[]"]
  by (simp add: time_is_set_def unset_sentinel_def CimuData_of_def drained_msgs_def fresh_locals_def
        interpolated_reading_def Let_def)

text \<open>
  C10.  A sample that is not an accelerometer sample (so every gyro sample) yields no message
  and is only appended to the history; so does an accelerometer sample while the history is
  shorter than three; and after a draining call the history is the one sample that triggered
  it.
\<close>

theorem C10_history_invariant:
  "(m_type imu_data \<noteq> ACCEL \<longrightarrow>
      FillImuData_LinearInterpolation is_set dflt imu_history imu_data = ([], imu_history @ [imu_data]))
   \<and> (length (imu_history @ [imu_data]) < 3 \<longrightarrow>
      FillImuData_LinearInterpolation is_set dflt imu_history imu_data = ([], imu_history @ [imu_data]))
   \<and> (m_type imu_data = ACCEL \<and> 3 \<le> length (imu_history @ [imu_data]) \<longrightarrow>
      snd (FillImuData_LinearInterpolation is_set dflt imu_history imu_data) = [imu_data])"
  using crnt_imu_drain [of "imu_history @ [imu_data]" is_set "fresh_locals dflt"]
  by (simp add: FillImuData_LinearInterpolation_def Let_def)

theorem C10_history_witness:
  "FillImuData_LinearInterpolation time_is_set unset_sentinel
          [CimuData_of ACCEL (Vector3d 0 0 0) 0] (CimuData_of GYRO (Vector3d 1 2 3) 5)
     = ([], [CimuData_of ACCEL (Vector3d 0 0 0) 0, CimuData_of GYRO (Vector3d 1 2 3) 5])
   \<and> snd (FillImuData_LinearInterpolation time_is_set unset_sentinel
          [CimuData_of ACCEL (Vector3d 0 0 0) 0, CimuData_of GYRO (Vector3d 1 2 3) 5]
          (CimuData_of ACCEL (Vector3d 10 10 10) 10))
     = [CimuData_of ACCEL (Vector3d 10 10 10) 10]"
  using C10_history_invariant
     [of "CimuData_of GYRO (Vector3d 1 2 3) 5" time_is_set unset_sentinel "[CimuData_of ACCEL (Vector3d 0 0 0) 0]"]
    C10_history_invariant
     [of "CimuData_of ACCEL (Vector3d 10 10 10) 10" time_is_set unset_sentinel
         "[CimuData_of ACCEL (Vector3d 0 0 0) 0, CimuData_of GYRO (Vector3d 1 2 3) 5]"]
  by (simp add: CimuData_of_def ACCEL_def GYRO_def)

section \<open>Properties of the de-duplication loop\<close>

lemma dedup_loop_points:
  "filter is_points (frames_to_publish (dedup_loop align_depth fs l))
     = filter is_points (frames_to_publish l)
       @ (if points_in_set l then [] else take 1 (filter is_points fs))"
proof (induction fs arbitrary: l)
  case Nil
  then show ?case by simp
next
  case (Cons f fs)
  show ?case by (simp add: Cons.IH Let_def)
qed

lemma dedup_loop_identity:
  "filter (\<lambda>f. \<not> is_points f \<and> frame_sip f = s) (frames_to_publish (dedup_loop align_depth fs l))
     = filter (\<lambda>f. \<not> is_points f \<and> frame_sip f = s) (frames_to_publish l)
       @ (if s \<in> set (is_in_set l) then []
          else take 1 (filter (\<lambda>f. \<not> is_points f \<and> frame_sip f = s) fs))"
proof (induction fs arbitrary: l align_depth)
  case Nil
  then show ?case by simp
next
  case (Cons f fs)
  show ?case by (auto simp add: Cons.IH Let_def)
qed

lemma dedup_loop_subseq:
  "\<exists>ys. frames_to_publish (dedup_loop align_depth fs l) = frames_to_publish l @ ys \<and> subseq ys fs"
proof (induction fs arbitrary: l)
  case Nil
  then show ?case by simp
next
  case (Cons f fs)
  show ?case
  proof (cases "is_points f")
    case True
    show ?thesis
    proof (cases "points_in_set l")
      case True
      with \<open>is_points f\<close> Cons.IH [of l] show ?thesis by auto
    next
      case False
      let ?l = "l\<lparr>points_in_set := True, frames_to_publish := frames_to_publish l @ [f]\<rparr>"
      from Cons.IH [of ?l] obtain ys where
        "frames_to_publish (dedup_loop align_depth fs ?l) = frames_to_publish ?l @ ys" "subseq ys fs"
        by blast
      with False \<open>is_points f\<close> show ?thesis
        by (intro exI [of _ "f # ys"]) simp
    qed
  next
    case np: False
    let ?d = "\<lambda>l. (if align_depth \<and> stream_type (get_profile f) = RS2_STREAM_DEPTH
                       \<and> format (get_profile f) = RS2_FORMAT_Z16
                  then l\<lparr>is_depth_arrived := True\<rparr> else l)"
    show ?thesis
    proof (cases "frame_sip f \<in> set (is_in_set l)")
      case True
      from Cons.IH [of "?d l"] obtain ys where
        "frames_to_publish (dedup_loop align_depth fs (?d l)) = frames_to_publish (?d l) @ ys" "subseq ys fs"
        by blast
      with True np show ?thesis
        by (intro exI [of _ ys]) (auto simp add: Let_def)
    next
      case False
      let ?l = "l\<lparr>is_in_set := is_in_set l @ [frame_sip f],
                         frames_to_publish := frames_to_publish l @ [f]\<rparr>"
      from Cons.IH [of "?d ?l"] obtain ys where
        "frames_to_publish (dedup_loop align_depth fs (?d ?l)) = frames_to_publish (?d ?l) @ ys" "subseq ys fs"
        by blast
      with False np show ?thesis
        by (intro exI [of _ "f # ys"]) (auto simp add: Let_def)
    qed
  qed
qed


text \<open>
  C5.  Of the point-cloud frames of the frame-set exactly the first is published, whatever its
  stream identity; of the other frames, for every stream identity exactly the first frame of
  that identity is published; and the published frames keep the frame-set's order.  So two
  point-cloud frames yield one, and two frames of one identity yield one.
\<close>

theorem C5_dedup_first_wins:
  "filter is_points (published_frames align_depth frameset) = take 1 (filter is_points frameset)
   \<and> (\<forall>s. filter (\<lambda>f. \<not> is_points f \<and> frame_sip f = s) (published_frames align_depth frameset)
           = take 1 (filter (\<lambda>f. \<not> is_points f \<and> frame_sip f = s) frameset))
   \<and> subseq (published_frames align_depth frameset) frameset"
  using dedup_loop_points [of align_depth frameset dedup_start]
        dedup_loop_identity [of _ align_depth frameset dedup_start]
        dedup_loop_subseq [of align_depth frameset dedup_start]
  by (auto simp add: published_frames_def dedup_start_def)

theorem C5_dedup_witness:
  "published_frames False
     [frame_of RS2_STREAM_DEPTH 0 RS2_FORMAT_Z16 1 True,
      frame_of RS2_STREAM_DEPTH 0 RS2_FORMAT_RGB8 2 False,
      frame_of RS2_STREAM_DEPTH 0 RS2_FORMAT_Z16 3 True,
      frame_of RS2_STREAM_DEPTH 0 RS2_FORMAT_Z16 4 False,
      frame_of RS2_STREAM_COLOR 0 RS2_FORMAT_RGB8 5 False]
   = [frame_of RS2_STREAM_DEPTH 0 RS2_FORMAT_Z16 1 True,
      frame_of RS2_STREAM_DEPTH 0 RS2_FORMAT_RGB8 2 False,
      frame_of RS2_STREAM_COLOR 0 RS2_FORMAT_RGB8 5 False]"
  using C5_dedup_first_wins
     [of False "[frame_of RS2_STREAM_DEPTH 0 RS2_FORMAT_Z16 1 True,
      frame_of RS2_STREAM_DEPTH 0 RS2_FORMAT_RGB8 2 False,
      frame_of RS2_STREAM_DEPTH 0 RS2_FORMAT_Z16 3 True,
      frame_of RS2_STREAM_DEPTH 0 RS2_FORMAT_Z16 4 False,
      frame_of RS2_STREAM_COLOR 0 RS2_FORMAT_RGB8 5 False]"]
  by (simp add: published_frames_def dedup_start_def frame_sip_def frame_of_def Let_def)

section \<open>Properties of floating-point rounding\<close>

text \<open>
  Rounding keeps the sign and the order of its arguments.  \<open>fl_eval\<close> are the equations that
  evaluate a rounding on a given number.
\<close>

lemmas fl_eval = fl_round_def round_magnitude_def quantum_def binary32_def binary64_def
  binary_exponent.simps round_half_even_def

lemma round_half_even_ge: "of_int k \<le> y \<Longrightarrow> k \<le> round_half_even y"
  by (simp add: round_half_even_def Let_def le_floor_iff) linarith

lemma round_half_even_le: "y \<le> of_int k \<Longrightarrow> round_half_even y \<le> k"
  unfolding round_half_even_def Let_def by (auto split: if_splits) linarith+

lemma round_half_even_mono: "x \<le> y \<Longrightarrow> round_half_even x \<le> round_half_even y"
proof -
  assume a: "x \<le> y"
  have fm: "\<lfloor>x\<rfloor> \<le> \<lfloor>y\<rfloor>" using a by (rule floor_mono)
  show ?thesis
  proof (cases "\<lfloor>x\<rfloor> = \<lfloor>y\<rfloor>")
    case True
    then show ?thesis using a unfolding round_half_even_def Let_def by auto
  next
    case False
    then have "\<lfloor>x\<rfloor> + 1 \<le> \<lfloor>y\<rfloor>" using fm by simp
    moreover have "round_half_even x \<le> \<lfloor>x\<rfloor> + 1" unfolding round_half_even_def Let_def by auto
    moreover have "\<lfloor>y\<rfloor> \<le> round_half_even y" unfolding round_half_even_def Let_def by auto
    ultimately show ?thesis by linarith
  qed
qed

lemma binary_exponent_bounds:
  "0 < x \<Longrightarrow> 2 powi binary_exponent x \<le> x \<and> x < 2 powi (binary_exponent x + 1)"
proof (induction x rule: binary_exponent.induct)
  case (1 x)
  show ?case
  proof (cases "2 \<le> x")
    case True
    then have e: "binary_exponent x = binary_exponent (x / 2) + 1"
      using 1(3) by (subst binary_exponent.simps) simp
    have "2 powi binary_exponent (x / 2) \<le> x / 2 \<and> x / 2 < 2 powi (binary_exponent (x / 2) + 1)"
      using 1(1) True 1(3) by simp
    then show ?thesis unfolding e by (simp add: power_int_add)
  next
    case ge: False
    show ?thesis
    proof (cases "x < 1")
      case True
      then have e: "binary_exponent x = binary_exponent (2 * x) - 1"
        using 1(3) ge by (subst binary_exponent.simps) simp
      have "2 powi binary_exponent (2 * x) \<le> 2 * x \<and> 2 * x < 2 powi (binary_exponent (2 * x) + 1)"
        using 1(2) True ge 1(3) by simp
      then show ?thesis unfolding e by (simp add: power_int_add power_int_diff)
    next
      case False
      then have e: "binary_exponent x = 0"
        using 1(3) ge by (subst binary_exponent.simps) simp
      show ?thesis unfolding e using False ge by simp
    qed
  qed
qed

lemma binary_exponent_mono:
  assumes "0 < x" "x \<le> y"
  shows "binary_exponent x \<le> binary_exponent y"
proof -
  have "(2::real) powi binary_exponent x \<le> x" using binary_exponent_bounds [of x] assms by simp
  also have "x \<le> y" by fact
  also have "y < 2 powi (binary_exponent y + 1)" using binary_exponent_bounds [of y] assms by simp
  finally have lt: "(2::real) powi binary_exponent x < 2 powi (binary_exponent y + 1)" .
  have "binary_exponent x < binary_exponent y + 1"
  proof (rule ccontr)
    assume "\<not> binary_exponent x < binary_exponent y + 1"
    then have "(2::real) powi (binary_exponent y + 1) \<le> 2 powi binary_exponent x"
      by (intro power_int_increasing) simp_all
    with lt show False by simp
  qed
  then show ?thesis by simp
qed

text \<open>A power of two is a whole multiple of every smaller power of two.\<close>

lemma powi_multiple:
  assumes "b \<le> a"
  shows "(2::real) powi a = of_int (2 ^ nat (a - b)) * 2 powi b"
proof -
  have "(2::real) powi a = 2 powi (a - b) * 2 powi b" by (simp flip: power_int_add)
  also have "(2::real) powi (a - b) = 2 ^ nat (a - b)" using assms by (simp add: power_int_def)
  finally show ?thesis by simp
qed

lemma quantum_pos: "0 < quantum fmt x"
  by (simp add: quantum_def)

lemma round_to_multiple_le:
  assumes "0 < q" "x \<le> of_int k * q"
  shows "of_int (round_half_even (x / q)) * q \<le> of_int k * q"
proof -
  have "x / q \<le> of_int k" using assms by (simp add: pos_divide_le_eq)
  then have "round_half_even (x / q) \<le> k" by (rule round_half_even_le)
  then show ?thesis using assms(1) by simp
qed

lemma round_to_multiple_ge:
  assumes "0 < q" "of_int k * q \<le> x"
  shows "of_int k * q \<le> of_int (round_half_even (x / q)) * q"
proof -
  have "of_int k \<le> x / q" using assms by (simp add: pos_le_divide_eq)
  then have "k \<le> round_half_even (x / q)" by (rule round_half_even_ge)
  then show ?thesis using assms(1) by simp
qed

lemma round_magnitude_nonneg: "0 \<le> x \<Longrightarrow> 0 \<le> round_magnitude fmt x"
  using round_to_multiple_ge [of "quantum fmt x" 0 x] quantum_pos [of fmt x]
  by (simp add: round_magnitude_def)

lemma round_magnitude_zero: "round_magnitude fmt 0 = 0"
  by (simp add: round_magnitude_def round_half_even_def)

lemma round_magnitude_mono:
  assumes p: "1 \<le> precision fmt" and x: "0 \<le> x" and xy: "x \<le> y"
  shows "round_magnitude fmt x \<le> round_magnitude fmt y"
proof (cases "x = 0")
  case True
  then show ?thesis using round_magnitude_nonneg [of y fmt] x xy by (simp add: round_magnitude_zero)
next
  case False
  then have xp: "0 < x" using x by simp
  then have yp: "0 < y" using xy by simp
  let ?ex = "max (binary_exponent x) (emin fmt)" and ?ey = "max (binary_exponent y) (emin fmt)"
  let ?qx = "quantum fmt x" and ?qy = "quantum fmt y"
  have em: "binary_exponent x \<le> binary_exponent y" using xp xy by (rule binary_exponent_mono)
  show ?thesis
  proof (cases "?ex = ?ey")
    case True
    then have q: "?qx = ?qy" by (simp add: quantum_def)
    have "x / ?qy \<le> y / ?qy" using xy quantum_pos [of fmt y] by (simp add: divide_right_mono)
    then have "round_half_even (x / ?qy) \<le> round_half_even (y / ?qy)" by (rule round_half_even_mono)
    then show ?thesis using quantum_pos [of fmt y] by (simp add: round_magnitude_def q)
  next
    case False
    then have lt: "?ex < binary_exponent y" using em by (auto simp: max_def split: if_splits)
    then have eyy: "?ey = binary_exponent y" by simp
    let ?b = "(2::real) powi binary_exponent y"
    have b_x: "?b = of_int (2 ^ nat (binary_exponent y - (?ex - int (precision fmt) + 1))) * ?qx"
      unfolding quantum_def using lt p by (intro powi_multiple) linarith
    have b_y: "?b = of_int (2 ^ nat (binary_exponent y - (?ey - int (precision fmt) + 1))) * ?qy"
      unfolding quantum_def using eyy p by (intro powi_multiple) linarith
    have "x < 2 powi (binary_exponent x + 1)" using binary_exponent_bounds [of x] xp by simp
    also have "\<dots> \<le> ?b" using lt by (intro power_int_increasing) simp_all
    finally have xb: "x \<le> ?b" by simp
    have yb: "?b \<le> y" using binary_exponent_bounds [of y] yp by simp
    have "round_magnitude fmt x \<le> ?b"
      unfolding round_magnitude_def
      using round_to_multiple_le [OF quantum_pos [of fmt x], of x "2 ^ nat (binary_exponent y - (?ex - int (precision fmt) + 1))"]
        xb b_x by simp
    also have "?b \<le> round_magnitude fmt y"
      unfolding round_magnitude_def
      using round_to_multiple_ge [OF quantum_pos [of fmt y], of "2 ^ nat (binary_exponent y - (?ey - int (precision fmt) + 1))" y]
        yb b_y by simp
    finally show ?thesis .
  qed
qed

lemma fl_round_nonneg: "0 \<le> x \<Longrightarrow> 0 \<le> fl_round fmt x"
  by (simp add: fl_round_def round_magnitude_nonneg)

lemma fl_round_mono:
  assumes p: "1 \<le> precision fmt" and xy: "x \<le> y"
  shows "fl_round fmt x \<le> fl_round fmt y"
proof -
  consider "0 \<le> x" | "x < 0" "0 \<le> y" | "x < 0" "y < 0" by linarith
  then show ?thesis
  proof cases
    case 1
    then show ?thesis using round_magnitude_mono [OF p _ xy] xy by (simp add: fl_round_def)
  next
    case 2
    then show ?thesis
      using round_magnitude_nonneg [of "- x" fmt] round_magnitude_nonneg [of y fmt]
      by (simp add: fl_round_def)
  next
    case 3
    then show ?thesis using round_magnitude_mono [OF p, of "- y" "- x"] xy by (simp add: fl_round_def)
  qed
qed

section \<open>Properties of depth clipping\<close>

lemma clip_row_length: "length (clip_row cv n i p) = length p"
  by (induction n arbitrary: i p) simp_all

lemma clip_row_nth:
  "i + n \<le> length p \<Longrightarrow> j < length p \<Longrightarrow>
   clip_row cv n i p ! j = (if i \<le> j \<and> j < i + n then (if p ! j > cv then 0 else p ! j) else p ! j)"
proof (induction n arbitrary: i p)
  case 0
  then show ?case by auto
next
  case (Suc n)
  let ?p = "if p ! i > cv then p[i := 0] else p"
  have len: "length ?p = length p" by simp
  have "clip_row cv (Suc n) i p ! j = clip_row cv n (Suc i) ?p ! j" by simp
  also have "\<dots> = (if Suc i \<le> j \<and> j < Suc i + n then (if ?p ! j > cv then 0 else ?p ! j) else ?p ! j)"
    using Suc.prems by (intro Suc.IH; simp)
  also have "\<dots> = (if i \<le> j \<and> j < i + Suc n then (if p ! j > cv then 0 else p ! j) else p ! j)"
    using Suc.prems by (auto simp add: nth_list_update)
  finally show ?case .
qed

lemma clip_rows_length: "length (clip_rows cv w n y p) = length p"
  by (induction n arbitrary: y p) (simp_all add: clip_row_length)

lemma clip_rows_nth:
  "(y + n) * w \<le> length p \<Longrightarrow> j < length p \<Longrightarrow>
   clip_rows cv w n y p ! j
     = (if y * w \<le> j \<and> j < (y + n) * w then (if p ! j > cv then 0 else p ! j) else p ! j)"
proof (induction n arbitrary: y p)
  case 0
  then show ?case by auto
next
  case (Suc n)
  let ?p = "clip_row cv w (y * w) p"
  have len: "length ?p = length p" by (rule clip_row_length)
  have row: "y * w + w \<le> length p"
    using Suc.prems(1) by (simp add: algebra_simps)
  have pj: "?p ! j = (if y * w \<le> j \<and> j < y * w + w then (if p ! j > cv then 0 else p ! j) else p ! j)"
    using row Suc.prems(2) by (rule clip_row_nth)
  have "clip_rows cv w (Suc n) y p ! j = clip_rows cv w n (Suc y) ?p ! j" by simp
  also have "\<dots> = (if y * w + w \<le> j \<and> j < y * w + w + n * w then (if ?p ! j > cv then 0 else ?p ! j) else ?p ! j)"
  proof -
    have "clip_rows cv w n (Suc y) ?p ! j
            = (if Suc y * w \<le> j \<and> j < (Suc y + n) * w then (if ?p ! j > cv then 0 else ?p ! j) else ?p ! j)"
      using Suc.prems len by (intro Suc.IH; simp)
    then show ?thesis by (simp add: algebra_simps)
  qed
  also have "\<dots> = (if y * w \<le> j \<and> j < y * w + w + n * w then (if p ! j > cv then 0 else p ! j) else p ! j)"
    unfolding pj by auto
  also have "\<dots> = (if y * w \<le> j \<and> j < (y + Suc n) * w then (if p ! j > cv then 0 else p ! j) else p ! j)"
    by (simp add: algebra_simps)
  finally show ?case .
qed

lemma clip_rows_map:
  assumes "length p = w * h"
  shows "clip_rows cv w h 0 p = map (\<lambda>v. if v > cv then 0 else v) p"
proof (rule nth_equalityI)
  show "length (clip_rows cv w h 0 p) = length (map (\<lambda>v. if v > cv then 0 else v) p)"
    by (simp add: clip_rows_length)
next
  fix j assume "j < length (clip_rows cv w h 0 p)"
  then have j: "j < length p" by (simp add: clip_rows_length)
  have "(0 + h) * w \<le> length p" using assms by (simp add: mult.commute)
  from clip_rows_nth [OF this j, of cv] j assms
  show "clip_rows cv w h 0 p ! j = map (\<lambda>v. if v > cv then 0 else v) p ! j"
    by (simp add: mult.commute)
qed

lemma static_cast_uint16_floor:
  assumes "0 \<le> x" and "x < 65536"
  shows "static_cast_uint16 x = Some (word_of_int \<lfloor>x\<rfloor>)"
    and "uint (word_of_int \<lfloor>x\<rfloor> :: 16 word) = \<lfloor>x\<rfloor>"
proof -
  have lo: "0 \<le> \<lfloor>x\<rfloor>" using assms(1) by simp
  have hi: "\<lfloor>x\<rfloor> < 65536" using assms(2) by (simp add: floor_less_iff)
  show "static_cast_uint16 x = Some (word_of_int \<lfloor>x\<rfloor>)"
    using lo hi assms(1) by (simp add: static_cast_uint16_def truncate_toward_zero_def)
  show "uint (word_of_int \<lfloor>x\<rfloor> :: 16 word) = \<lfloor>x\<rfloor>"
    using lo hi by (simp add: uint_word_of_int_eq take_bit_int_eq_self)
qed

text \<open>
  The \<^verbatim>\<open>float\<close> nearest to 0.001, which is what a \<^verbatim>\<open>float\<close> depth scale of one millimetre
  holds, is a little above 0.001; the quotient of 1 by it is a little below 1000, in \<^verbatim>\<open>float\<close>
  and in \<^verbatim>\<open>double\<close> arithmetic.
\<close>

lemma float_millimetre: "fl_round binary32 (1 / 1000) = 8589935 / 8589934592"
  by (simp add: fl_eval)

lemma float_quotient: "fl_round binary32 (8589934592 / 8589935) = 16383999 / 16384"
  by (simp add: fl_eval)

lemma double_quotient:
  "fl_round binary64 (8589934592 / 8589935) = 2199023151104005 / 2199023255552"
  by (simp add: fl_eval)

text \<open>
  The example of C6 fails as written: with the depth scale 0.001 of a \<^verbatim>\<open>float\<close> and the
  clipping distance 1.0 the floating-point quotient is below 1000 and the threshold is 999, so
  a sample of 1000 is zeroed, whichever of the two formats the division is carried out in.
\<close>

theorem C6_counterexample:
  "clip_for_max_range binary32 (fl_round binary32 (1 / 1000)) 1
     \<lparr>get_width = 1, get_height = 1, get_data = [1000]\<rparr>
     = Some \<lparr>get_width = 1, get_height = 1, get_data = [0]\<rparr>
   \<and> clip_for_max_range binary64 (fl_round binary32 (1 / 1000)) 1
     \<lparr>get_width = 1, get_height = 1, get_data = [1000]\<rparr>
     = Some \<lparr>get_width = 1, get_height = 1, get_data = [0]\<rparr>"
  by (simp add: clip_for_max_range_def clip_depth_def static_cast_uint16_def truncate_toward_zero_def
        float_millimetre float_quotient double_quotient)

lemma clip_for_max_range_threshold:
  assumes "0 < clipping_distance" and "0 < depth_scale_meters"
    and hi: "fl_round fmt (clipping_distance / depth_scale_meters) < 65536"
    and len: "length (get_data frame) = nat (get_width frame) * nat (get_height frame)"
  shows "uint (word_of_int \<lfloor>fl_round fmt (clipping_distance / depth_scale_meters)\<rfloor> :: 16 word)
           = \<lfloor>fl_round fmt (clipping_distance / depth_scale_meters)\<rfloor>"
    and "clip_for_max_range fmt depth_scale_meters clipping_distance frame
           = Some (frame\<lparr>get_data :=
               map (\<lambda>v. if v > word_of_int \<lfloor>fl_round fmt (clipping_distance / depth_scale_meters)\<rfloor>
                         then 0 else v)
                 (get_data frame)\<rparr>)"
proof -
  let ?q = "fl_round fmt (clipping_distance / depth_scale_meters)"
  have "0 \<le> clipping_distance / depth_scale_meters" using assms(1,2) by simp
  then have q: "0 \<le> ?q" by (rule fl_round_nonneg)
  show "uint (word_of_int \<lfloor>?q\<rfloor> :: 16 word) = \<lfloor>?q\<rfloor>"
    using q hi by (rule static_cast_uint16_floor(2))
  have cast: "static_cast_uint16 ?q = Some (word_of_int \<lfloor>?q\<rfloor>)"
    using q hi by (rule static_cast_uint16_floor(1))
  show "clip_for_max_range fmt depth_scale_meters clipping_distance frame
        = Some (frame\<lparr>get_data := map (\<lambda>v. if v > word_of_int \<lfloor>?q\<rfloor> then 0 else v) (get_data frame)\<rparr>)"
    using assms(1,2) cast len clip_rows_map [OF len]
    by (simp add: clip_for_max_range_def clip_depth_def Let_def)
qed

text \<open>
  C6, amended.  A clipping distance that is not positive leaves the frame as it is: the routine
  is not called.  For a positive distance and a positive depth scale, on a frame whose buffer
  holds width times height samples, the threshold is the floating-point quotient of the
  distance by the scale, that is the quotient rounded to the format of the division, truncated
  to a whole number, provided it fits the 16-bit sample type; every sample strictly above the
  threshold becomes 0 and every other sample is unchanged.  With the depth scale 0.001 of a
  \<^verbatim>\<open>float\<close> and the clipping distance 1.0 the threshold is 999, whether the division is
  carried out in \<^verbatim>\<open>float\<close> or in \<^verbatim>\<open>double\<close>: exactly the samples above 999 become 0.
\<close>

theorem C6_depth_clipping:
  "(clipping_distance \<le> 0 \<longrightarrow>
      clip_for_max_range fmt depth_scale_meters clipping_distance frame = Some frame)
   \<and> (0 < clipping_distance \<and> 0 < depth_scale_meters
        \<and> fl_round fmt (clipping_distance / depth_scale_meters) < 65536
        \<and> length (get_data frame) = nat (get_width frame) * nat (get_height frame) \<longrightarrow>
      uint (word_of_int \<lfloor>fl_round fmt (clipping_distance / depth_scale_meters)\<rfloor> :: 16 word)
        = \<lfloor>fl_round fmt (clipping_distance / depth_scale_meters)\<rfloor>
      \<and> clip_for_max_range fmt depth_scale_meters clipping_distance frame
        = Some (frame\<lparr>get_data :=
             map (\<lambda>v. if v > word_of_int \<lfloor>fl_round fmt (clipping_distance / depth_scale_meters)\<rfloor>
                       then 0 else v)
               (get_data frame)\<rparr>))
   \<and> (length (get_data frame) = nat (get_width frame) * nat (get_height frame) \<longrightarrow>
      \<lfloor>fl_round binary32 (1 / fl_round binary32 (1 / 1000))\<rfloor> = 999
      \<and> \<lfloor>fl_round binary64 (1 / fl_round binary32 (1 / 1000))\<rfloor> = 999
      \<and> clip_for_max_range binary32 (fl_round binary32 (1 / 1000)) 1 frame
        = Some (frame\<lparr>get_data := map (\<lambda>v. if v > 999 then 0 else v) (get_data frame)\<rparr>)
      \<and> clip_for_max_range binary64 (fl_round binary32 (1 / 1000)) 1 frame
        = Some (frame\<lparr>get_data := map (\<lambda>v. if v > 999 then 0 else v) (get_data frame)\<rparr>))"
proof (intro conjI impI)
  assume "clipping_distance \<le> 0"
  then show "clip_for_max_range fmt depth_scale_meters clipping_distance frame = Some frame"
    by (simp add: clip_for_max_range_def)
next
  assume a: "0 < clipping_distance \<and> 0 < depth_scale_meters
        \<and> fl_round fmt (clipping_distance / depth_scale_meters) < 65536
        \<and> length (get_data frame) = nat (get_width frame) * nat (get_height frame)"
  then show "uint (word_of_int \<lfloor>fl_round fmt (clipping_distance / depth_scale_meters)\<rfloor> :: 16 word)
        = \<lfloor>fl_round fmt (clipping_distance / depth_scale_meters)\<rfloor>"
    by (intro clip_for_max_range_threshold(1) [where frame = frame]) simp_all
  from a show "clip_for_max_range fmt depth_scale_meters clipping_distance frame
        = Some (frame\<lparr>get_data :=
             map (\<lambda>v. if v > word_of_int \<lfloor>fl_round fmt (clipping_distance / depth_scale_meters)\<rfloor>
                       then 0 else v)
               (get_data frame)\<rparr>)"
    by (intro clip_for_max_range_threshold(2)) simp_all
next
  show "\<lfloor>fl_round binary32 (1 / fl_round binary32 (1 / 1000))\<rfloor> = 999"
    by (simp add: float_millimetre float_quotient)
  show "\<lfloor>fl_round binary64 (1 / fl_round binary32 (1 / 1000))\<rfloor> = 999"
    by (simp add: float_millimetre double_quotient)
next
  assume len: "length (get_data frame) = nat (get_width frame) * nat (get_height frame)"
  show "clip_for_max_range binary32 (fl_round binary32 (1 / 1000)) 1 frame
        = Some (frame\<lparr>get_data := map (\<lambda>v. if v > 999 then 0 else v) (get_data frame)\<rparr>)"
    using clip_for_max_range_threshold(2)
            [of 1 "fl_round binary32 (1 / 1000)" binary32 frame, OF _ _ _ len]
    by (simp add: float_millimetre float_quotient)
  show "clip_for_max_range binary64 (fl_round binary32 (1 / 1000)) 1 frame
        = Some (frame\<lparr>get_data := map (\<lambda>v. if v > 999 then 0 else v) (get_data frame)\<rparr>)"
    using clip_for_max_range_threshold(2)
            [of 1 "fl_round binary32 (1 / 1000)" binary64 frame, OF _ _ _ len]
    by (simp add: float_millimetre double_quotient)
qed

text \<open>
  With the \<^verbatim>\<open>float\<close> depth scale 0.001 and the clipping distance 1.0 the threshold is 999, in
  either format: exactly the samples above 999 are zeroed.  With the same scale and the
  distance 5.0 the quotient, 4999.99976, rounds to 5000 in \<^verbatim>\<open>float\<close> and stays below 5000 in
  \<^verbatim>\<open>double\<close>: the threshold is 5000 in the first format and 4999 in the second.  With the
  scale 1/1024 and the distance 1.0 the quotient is exact and the threshold is 1024.  A
  clipping distance of 0 leaves the buffer as it is.
\<close>

theorem C6_clipping_witness:
  "clip_for_max_range binary32 (fl_round binary32 (1 / 1000)) 1
     \<lparr>get_width = 2, get_height = 2, get_data = [999, 1000, 1001, 65535]\<rparr>
     = Some \<lparr>get_width = 2, get_height = 2, get_data = [999, 0, 0, 0]\<rparr>
   \<and> clip_for_max_range binary64 (fl_round binary32 (1 / 1000)) 1
     \<lparr>get_width = 2, get_height = 2, get_data = [999, 1000, 1001, 65535]\<rparr>
     = Some \<lparr>get_width = 2, get_height = 2, get_data = [999, 0, 0, 0]\<rparr>
   \<and> clip_for_max_range binary32 (fl_round binary32 (1 / 1000)) 5
     \<lparr>get_width = 2, get_height = 2, get_data = [4999, 5000, 5001, 65535]\<rparr>
     = Some \<lparr>get_width = 2, get_height = 2, get_data = [4999, 5000, 0, 0]\<rparr>
   \<and> clip_for_max_range binary64 (fl_round binary32 (1 / 1000)) 5
     \<lparr>get_width = 2, get_height = 2, get_data = [4999, 5000, 5001, 65535]\<rparr>
     = Some \<lparr>get_width = 2, get_height = 2, get_data = [4999, 0, 0, 0]\<rparr>
   \<and> clip_for_max_range binary32 (1 / 1024) 1
     \<lparr>get_width = 2, get_height = 2, get_data = [1023, 1024, 1025, 65535]\<rparr>
     = Some \<lparr>get_width = 2, get_height = 2, get_data = [1023, 1024, 0, 0]\<rparr>
   \<and> clip_for_max_range binary32 (fl_round binary32 (1 / 1000)) 0
     \<lparr>get_width = 2, get_height = 2, get_data = [999, 1000, 1001, 65535]\<rparr>
     = Some \<lparr>get_width = 2, get_height = 2, get_data = [999, 1000, 1001, 65535]\<rparr>"
proof -
  have q3: "fl_round binary32 1024 = 1024" by (simp add: fl_eval)
  have q5: "fl_round binary32 (8589934592 / 1717987) = 5000" by (simp add: fl_eval)
  have q6: "fl_round binary64 (8589934592 / 1717987) = 1374389469440003 / 274877906944"
    by (simp add: fl_eval)
  show ?thesis
    using C6_depth_clipping [where clipping_distance = 1 and fmt = binary32
            and depth_scale_meters = "fl_round binary32 (1 / 1000)"
            and frame = "\<lparr>get_width = 2, get_height = 2, get_data = [999, 1000, 1001, 65535]\<rparr>"]
          C6_depth_clipping [where clipping_distance = 1 and fmt = binary64
            and depth_scale_meters = "fl_round binary32 (1 / 1000)"
            and frame = "\<lparr>get_width = 2, get_height = 2, get_data = [999, 1000, 1001, 65535]\<rparr>"]
          C6_depth_clipping [where clipping_distance = 5 and fmt = binary32
            and depth_scale_meters = "fl_round binary32 (1 / 1000)"
            and frame = "\<lparr>get_width = 2, get_height = 2, get_data = [4999, 5000, 5001, 65535]\<rparr>"]
          C6_depth_clipping [where clipping_distance = 5 and fmt = binary64
            and depth_scale_meters = "fl_round binary32 (1 / 1000)"
            and frame = "\<lparr>get_width = 2, get_height = 2, get_data = [4999, 5000, 5001, 65535]\<rparr>"]
          C6_depth_clipping [where clipping_distance = 1 and fmt = binary32
            and depth_scale_meters = "1 / 1024"
            and frame = "\<lparr>get_width = 2, get_height = 2, get_data = [1023, 1024, 1025, 65535]\<rparr>"]
          C6_depth_clipping [where clipping_distance = 0 and fmt = binary32
            and depth_scale_meters = "fl_round binary32 (1 / 1000)"
            and frame = "\<lparr>get_width = 2, get_height = 2, get_data = [999, 1000, 1001, 65535]\<rparr>"]
    by (simp add: float_millimetre float_quotient double_quotient q3 q5 q6)
qed

section \<open>Properties of the time base\<close>

lemma trunc_floor: "0 \<le> x \<Longrightarrow> truncate_toward_zero x = \<lfloor>x\<rfloor>"
  by (simp add: truncate_toward_zero_def)

lemma truncate_mono:
  assumes "x \<le> y"
  shows "truncate_toward_zero x \<le> truncate_toward_zero y"
proof (cases "0 \<le> x")
  case True
  with assms have "0 \<le> y" by simp
  with True assms show ?thesis
    by (simp add: truncate_toward_zero_def floor_mono)
next
  case neg: False
  show ?thesis
  proof (cases "0 \<le> y")
    case True
    have "\<lceil>x\<rceil> \<le> 0" using neg by (simp add: ceiling_le_iff)
    moreover have "0 \<le> \<lfloor>y\<rfloor>" using True by simp
    moreover have "truncate_toward_zero x = \<lceil>x\<rceil>" "truncate_toward_zero y = \<lfloor>y\<rfloor>"
      using neg True by (simp_all add: truncate_toward_zero_def)
    ultimately show ?thesis by linarith
  next
    case False
    with neg assms show ?thesis
      by (simp add: truncate_toward_zero_def ceiling_mono)
  qed
qed

lemma truncate_of_int: "truncate_toward_zero (real_of_int n) = n"
  by (simp add: truncate_toward_zero_def)

lemma elapsed_camera_ns_mono:
  assumes "d1 \<le> d2"
  shows "elapsed_camera_ns tb d1 \<le> elapsed_camera_ns tb d2"
proof -
  have p: "1 \<le> precision binary64" by (simp add: binary64_def)
  have "d1 - camera_time_base tb \<le> d2 - camera_time_base tb" using assms by simp
  then have "fl_round binary64 (d1 - camera_time_base tb) \<le> fl_round binary64 (d2 - camera_time_base tb)"
    by (rule fl_round_mono [OF p])
  then have "fl_round binary64 (d1 - camera_time_base tb) * 1000000
               \<le> fl_round binary64 (d2 - camera_time_base tb) * 1000000"
    by simp
  then show ?thesis unfolding elapsed_camera_ns_def by (rule fl_round_mono [OF p])
qed

lemma elapsed_camera_ns_nonneg:
  assumes "camera_time_base tb \<le> d"
  shows "0 \<le> elapsed_camera_ns tb d"
proof -
  have "0 \<le> fl_round binary64 (d - camera_time_base tb)" using assms by (intro fl_round_nonneg) simp
  then have "0 \<le> fl_round binary64 (d - camera_time_base tb) * 1000000" by simp
  then show ?thesis unfolding elapsed_camera_ns_def by (rule fl_round_nonneg)
qed

text \<open>
  The statement of C4 fails as written: host times are whole nanoseconds.  With the anchor at
  device time 0, the device times 1/128 ms and 1/64 ms, which \<^verbatim>\<open>double\<close> holds exactly as it
  does their products with 1000000, are 7812.5 ns apart and map to the host times 7812 and
  15625, which are 7813 ns apart; and the host time of the first is not its scaled distance
  from the anchor.  A frame-set carrying these device times is stamped with the host clock
  instead, whatever its device time.
\<close>

theorem C4_counterexample:
  "real_of_int
     (to_host_time (setBaseTime 0 0 False \<lparr>ros_time_base = 0, camera_time_base = 0\<rparr>) (1 / 64)
      - to_host_time (setBaseTime 0 0 False \<lparr>ros_time_base = 0, camera_time_base = 0\<rparr>) (1 / 128))
   \<noteq> (1 / 64 - 1 / 128) * 1000000
   \<and> real_of_int
       (to_host_time (setBaseTime 0 0 False \<lparr>ros_time_base = 0, camera_time_base = 0\<rparr>) (1 / 128))
     \<noteq> real_of_int 0 + (1 / 128 - 0) * 1000000
   \<and> real_of_int
       (frame_callback_stamp 9000000 (setBaseTime 0 0 False \<lparr>ros_time_base = 0, camera_time_base = 0\<rparr>)
          True (1 / 64)
        - frame_callback_stamp 8000000 (setBaseTime 0 0 False \<lparr>ros_time_base = 0, camera_time_base = 0\<rparr>)
          True (1 / 128))
     \<noteq> (1 / 64 - 1 / 128) * 1000000"
proof -
  have a: "fl_round binary64 (fl_round binary64 (1 / 64) * 1000000) = 15625"
    by (simp add: fl_eval)
  have b: "fl_round binary64 (fl_round binary64 (1 / 128) * 1000000) = 15625 / 2"
    by (simp add: fl_eval)
  show ?thesis
    by (simp add: frame_callback_stamp_def to_host_time_def setBaseTime_def elapsed_camera_ns_def
          truncate_toward_zero_def a b)
qed

text \<open>
  C4, amended.  A frame-set is stamped with the host clock at its arrival.  Every other device
  time \<open>d\<close> maps, after the anchor is set, to the host anchor plus the \<^verbatim>\<open>double\<close> difference
  \<open>d - device_anchor\<close> times 1000000, rounded to \<^verbatim>\<open>double\<close> again and truncated to a whole
  number of nanoseconds; the anchor's device time maps to the host anchor.  The mapping is
  monotone.  For a device time at or after the anchor the host time is the \<^verbatim>\<open>double\<close> count
  of elapsed nanoseconds less its fraction.  The host-time difference of two device times
  equals \<open>(d2 - d1)\<close> scaled to nanoseconds when both differences from the anchor and both
  products are exact in \<^verbatim>\<open>double\<close> and the products are whole numbers.
\<close>

theorem C4_time_base_rounded_and_truncated:
  "frame_callback_stamp now (setBaseTime host_anchor device_anchor w tb) True d = now
   \<and> frame_callback_stamp now (setBaseTime host_anchor device_anchor w tb) False d
       = to_host_time (setBaseTime host_anchor device_anchor w tb) d
   \<and> to_host_time (setBaseTime host_anchor device_anchor w tb) d
       = host_anchor
         + truncate_toward_zero
             (fl_round binary64 (fl_round binary64 (d - device_anchor) * 1000000))
   \<and> to_host_time (setBaseTime host_anchor device_anchor w tb) device_anchor = host_anchor
   \<and> (d1 \<le> d2 \<longrightarrow>
        to_host_time (setBaseTime host_anchor device_anchor w tb) d1
          \<le> to_host_time (setBaseTime host_anchor device_anchor w tb) d2)
   \<and> (device_anchor \<le> d \<longrightarrow>
        real_of_int (to_host_time (setBaseTime host_anchor device_anchor w tb) d - host_anchor)
          \<le> elapsed_camera_ns (setBaseTime host_anchor device_anchor w tb) d
        \<and> elapsed_camera_ns (setBaseTime host_anchor device_anchor w tb) d
          < real_of_int (to_host_time (setBaseTime host_anchor device_anchor w tb) d - host_anchor) + 1)
   \<and> (fl_round binary64 (d1 - device_anchor) = d1 - device_anchor
      \<and> fl_round binary64 (d2 - device_anchor) = d2 - device_anchor
      \<and> fl_round binary64 ((d1 - device_anchor) * 1000000) = (d1 - device_anchor) * 1000000
      \<and> fl_round binary64 ((d2 - device_anchor) * 1000000) = (d2 - device_anchor) * 1000000
      \<and> (d1 - device_anchor) * 1000000 \<in> \<int> \<and> (d2 - device_anchor) * 1000000 \<in> \<int> \<longrightarrow>
        real_of_int (to_host_time (setBaseTime host_anchor device_anchor w tb) d2
                     - to_host_time (setBaseTime host_anchor device_anchor w tb) d1)
          = (d2 - d1) * 1000000)"
proof -
  let ?tb = "setBaseTime host_anchor device_anchor w tb"
  let ?e1 = "(d1 - device_anchor) * 1000000" and ?e2 = "(d2 - device_anchor) * 1000000"
  have base: "ros_time_base ?tb = host_anchor" "camera_time_base ?tb = device_anchor"
    by (simp_all add: setBaseTime_def)
  have frameset: "frame_callback_stamp now ?tb True d = now"
    by (simp add: frame_callback_stamp_def)
  have single: "frame_callback_stamp now ?tb False d = to_host_time ?tb d"
    by (simp add: frame_callback_stamp_def)
  have host: "\<And>d. to_host_time ?tb d
      = host_anchor
        + truncate_toward_zero (fl_round binary64 (fl_round binary64 (d - device_anchor) * 1000000))"
    by (simp add: to_host_time_def elapsed_camera_ns_def base)
  have zero: "fl_round binary64 0 = 0"
    by (simp add: fl_round_def round_magnitude_zero)
  have anchor: "to_host_time ?tb device_anchor = host_anchor"
    unfolding host by (simp add: zero truncate_toward_zero_def)
  have mono: "d1 \<le> d2 \<longrightarrow> to_host_time ?tb d1 \<le> to_host_time ?tb d2"
    using truncate_mono [OF elapsed_camera_ns_mono [of d1 d2 ?tb]]
    by (simp add: to_host_time_def)
  have near: "device_anchor \<le> d \<longrightarrow>
        real_of_int (to_host_time ?tb d - host_anchor) \<le> elapsed_camera_ns ?tb d
        \<and> elapsed_camera_ns ?tb d < real_of_int (to_host_time ?tb d - host_anchor) + 1"
  proof
    assume "device_anchor \<le> d"
    then have "0 \<le> elapsed_camera_ns ?tb d"
      using elapsed_camera_ns_nonneg [of ?tb d] by (simp add: base)
    then have "to_host_time ?tb d - host_anchor = \<lfloor>elapsed_camera_ns ?tb d\<rfloor>"
      by (simp add: to_host_time_def base trunc_floor)
    then show "real_of_int (to_host_time ?tb d - host_anchor) \<le> elapsed_camera_ns ?tb d
        \<and> elapsed_camera_ns ?tb d < real_of_int (to_host_time ?tb d - host_anchor) + 1"
      by simp
  qed
  have whole: "fl_round binary64 (d1 - device_anchor) = d1 - device_anchor
      \<and> fl_round binary64 (d2 - device_anchor) = d2 - device_anchor
      \<and> fl_round binary64 ?e1 = ?e1 \<and> fl_round binary64 ?e2 = ?e2
      \<and> ?e1 \<in> \<int> \<and> ?e2 \<in> \<int> \<longrightarrow>
        real_of_int (to_host_time ?tb d2 - to_host_time ?tb d1) = (d2 - d1) * 1000000"
  proof
    assume a: "fl_round binary64 (d1 - device_anchor) = d1 - device_anchor
      \<and> fl_round binary64 (d2 - device_anchor) = d2 - device_anchor
      \<and> fl_round binary64 ?e1 = ?e1 \<and> fl_round binary64 ?e2 = ?e2
      \<and> ?e1 \<in> \<int> \<and> ?e2 \<in> \<int>"
    then obtain n1 n2 where n: "?e1 = real_of_int n1" "?e2 = real_of_int n2"
      by (auto elim!: Ints_cases)
    have h1: "to_host_time ?tb d1 = host_anchor + n1"
      unfolding host using a n(1) by (simp add: truncate_of_int)
    have h2: "to_host_time ?tb d2 = host_anchor + n2"
      unfolding host using a n(2) by (simp add: truncate_of_int)
    have "(d2 - d1) * 1000000 = ?e2 - ?e1" by (simp add: algebra_simps)
    then show "real_of_int (to_host_time ?tb d2 - to_host_time ?tb d1) = (d2 - d1) * 1000000"
      unfolding h1 h2 n by simp
  qed
  show ?thesis using frameset single host anchor mono near whole by blast
qed

text \<open>
  A frame-set that arrives at host time 7000 keeps that stamp.  With the anchor at host time 5
  and device time 100 ms, the device times 100.5 ms and 101 ms map to host times 500000 ns
  apart, as far as the device times are, and the host time of the first is its elapsed
  nanosecond count, 500000, after the anchor.  The \<^verbatim>\<open>double\<close> nearest to 0.3 ms is below
  0.3, its product with 1000000 rounds to 300000, and that is its host time from the anchor 0.
  The \<^verbatim>\<open>double\<close> values nearest to 1.001 ms and 67.189 ms are 66188000.0000000069 ns apart
  and map to host times 66188001 ns apart.
\<close>

theorem C4_time_base_witness:
  "frame_callback_stamp 7000 (setBaseTime 5 100 False \<lparr>ros_time_base = 0, camera_time_base = 0\<rparr>)
     True (1005 / 10) = 7000
   \<and> to_host_time (setBaseTime 5 100 False \<lparr>ros_time_base = 0, camera_time_base = 0\<rparr>) (1005 / 10)
     \<le> to_host_time (setBaseTime 5 100 False \<lparr>ros_time_base = 0, camera_time_base = 0\<rparr>) 101
   \<and> real_of_int
       (to_host_time (setBaseTime 5 100 False \<lparr>ros_time_base = 0, camera_time_base = 0\<rparr>) 101
        - to_host_time (setBaseTime 5 100 False \<lparr>ros_time_base = 0, camera_time_base = 0\<rparr>) (1005 / 10))
     = (101 - 1005 / 10) * 1000000
   \<and> real_of_int
       (to_host_time (setBaseTime 5 100 False \<lparr>ros_time_base = 0, camera_time_base = 0\<rparr>) (1005 / 10) - 5)
     \<le> elapsed_camera_ns (setBaseTime 5 100 False \<lparr>ros_time_base = 0, camera_time_base = 0\<rparr>) (1005 / 10)
   \<and> to_host_time (setBaseTime 5 100 False \<lparr>ros_time_base = 0, camera_time_base = 0\<rparr>) (1005 / 10)
     = 500005
   \<and> fl_round binary64 (3 / 10) = 5404319552844595 / 18014398509481984
   \<and> to_host_time (setBaseTime 0 0 False \<lparr>ros_time_base = 0, camera_time_base = 0\<rparr>)
       (fl_round binary64 (3 / 10)) = 300000
   \<and> to_host_time (setBaseTime 0 0 False \<lparr>ros_time_base = 0, camera_time_base = 0\<rparr>)
       (fl_round binary64 (67189 / 1000))
     - to_host_time (setBaseTime 0 0 False \<lparr>ros_time_base = 0, camera_time_base = 0\<rparr>)
       (fl_round binary64 (1001 / 1000)) = 66188001"
proof -
  have r1: "fl_round binary64 (1005 / 10 - 100) = 1005 / 10 - 100" by (simp add: fl_eval)
  have r2: "fl_round binary64 (101 - 100) = 101 - 100" by (simp add: fl_eval)
  have r3: "fl_round binary64 ((1005 / 10 - 100) * 1000000) = (1005 / 10 - 100) * 1000000"
    by (simp add: fl_eval)
  have r4: "fl_round binary64 ((101 - 100) * 1000000) = (101 - 100) * 1000000"
    by (simp add: fl_eval)
  have w1: "(1005 / 10 - 100) * 1000000 = real_of_int 500000" by simp
  have w2: "(101 - 100) * 1000000 = real_of_int 1000000" by simp
  have ints: "(1005 / 10 - 100) * 1000000 \<in> (\<int> :: real set) \<and> (101 - 100) * 1000000 \<in> (\<int> :: real set)"
    unfolding w1 w2 by (intro conjI Ints_of_int)
  have le: "(1005 / 10 :: real) \<le> 101" by simp
  have le2: "(100 :: real) \<le> 1005 / 10" by simp
  have h: "to_host_time (setBaseTime 5 100 False \<lparr>ros_time_base = 0, camera_time_base = 0\<rparr>) (1005 / 10)
             = 500005"
  proof -
    have n1: "fl_round binary64 (1 / 2) = 1 / 2" by (simp add: fl_eval)
    have n2: "fl_round binary64 500000 = 500000" by (simp add: fl_eval)
    show ?thesis
      using C4_time_base_rounded_and_truncated
              [of 7000 5 100 False "\<lparr>ros_time_base = 0, camera_time_base = 0\<rparr>" "1005 / 10" 0 0]
      by (simp add: n1 n2 truncate_toward_zero_def)
  qed
  have d: "fl_round binary64 (3 / 10) = 5404319552844595 / 18014398509481984"
    by (simp add: fl_eval)
  have e: "fl_round binary64
             (fl_round binary64 (5404319552844595 / 18014398509481984) * 1000000) = 300000"
    by (simp add: fl_eval)
  have stamp: "to_host_time (setBaseTime 0 0 False \<lparr>ros_time_base = 0, camera_time_base = 0\<rparr>)
       (fl_round binary64 (3 / 10)) = 300000"
    using C4_time_base_rounded_and_truncated
            [of 0 0 0 False "\<lparr>ros_time_base = 0, camera_time_base = 0\<rparr>"
               "fl_round binary64 (3 / 10)" 0 0]
    unfolding d by (simp add: e truncate_toward_zero_def)
  have d1: "fl_round binary64 (1001 / 1000) = 2254051613498933 / 2251799813685248"
    by (simp add: fl_eval)
  have d2: "fl_round binary64 (67189 / 1000) = 2364002776276533 / 35184372088832"
    by (simp add: fl_eval)
  have e1: "fl_round binary64
              (fl_round binary64 (2254051613498933 / 2251799813685248) * 1000000)
            = 8598524526591999 / 8589934592"
    by (simp add: fl_eval)
  have e2: "fl_round binary64
              (fl_round binary64 (2364002776276533 / 35184372088832) * 1000000)
            = 67189000"
    by (simp add: fl_eval)
  have s1: "to_host_time (setBaseTime 0 0 False \<lparr>ros_time_base = 0, camera_time_base = 0\<rparr>)
       (fl_round binary64 (1001 / 1000)) = 1000999"
    using C4_time_base_rounded_and_truncated
            [of 0 0 0 False "\<lparr>ros_time_base = 0, camera_time_base = 0\<rparr>"
               "fl_round binary64 (1001 / 1000)" 0 0]
    unfolding d1 by (simp add: e1 truncate_toward_zero_def)
  have s2: "to_host_time (setBaseTime 0 0 False \<lparr>ros_time_base = 0, camera_time_base = 0\<rparr>)
       (fl_round binary64 (67189 / 1000)) = 67189000"
    using C4_time_base_rounded_and_truncated
            [of 0 0 0 False "\<lparr>ros_time_base = 0, camera_time_base = 0\<rparr>"
               "fl_round binary64 (67189 / 1000)" 0 0]
    unfolding d2 by (simp add: e2 truncate_toward_zero_def)
  have apart: "to_host_time (setBaseTime 0 0 False \<lparr>ros_time_base = 0, camera_time_base = 0\<rparr>)
       (fl_round binary64 (67189 / 1000))
     - to_host_time (setBaseTime 0 0 False \<lparr>ros_time_base = 0, camera_time_base = 0\<rparr>)
       (fl_round binary64 (1001 / 1000)) = 66188001"
    unfolding s1 s2 by simp
  from C4_time_base_rounded_and_truncated
         [of 7000 5 100 False "\<lparr>ros_time_base = 0, camera_time_base = 0\<rparr>"
            "1005 / 10" "1005 / 10" 101]
       ints le le2 r1 r2 r3 r4 d stamp h apart
  show ?thesis by blast
qed

section \<open>Properties of base-stream selection\<close>

lemma find_append_case:
  "find P (xs @ ys) = (case find P xs of Some x \<Rightarrow> Some x | None \<Rightarrow> find P ys)"
  by (induction xs) auto

lemma collect_profiles_find:
  "collect_profiles profiles available_profiles sip =
     (case available_profiles sip of
        Some profile \<Rightarrow> Some profile
      | None \<Rightarrow> find (\<lambda>profile. (stream_type profile, stream_index profile) = sip) profiles)"
  by (induction profiles arbitrary: available_profiles) (auto simp: Let_def split: option.splits)

lemma collect_sensors_find:
  "collect_sensors sensors available_profiles sip =
     (case available_profiles sip of
        Some profile \<Rightarrow> Some profile
      | None \<Rightarrow> find (\<lambda>profile. (stream_type profile, stream_index profile) = sip) (concat sensors))"
  by (induction sensors arbitrary: available_profiles)
     (auto simp: collect_profiles_find find_append_case split: option.splits)

lemma scan_found:
  "available_profiles sip \<noteq> None \<Longrightarrow>
   scan_base_stream past_end available_profiles (sip # base_stream) = sip # base_stream"
  by (subst scan_base_stream.simps) auto

lemma scan_next:
  "available_profiles sip = None \<Longrightarrow>
   scan_base_stream past_end available_profiles (sip # base_stream)
     = scan_base_stream past_end available_profiles base_stream"
  by (subst scan_base_stream.simps) simp

lemma scan_end:
  "scan_base_stream past_end available_profiles [] = []"
  by (subst scan_base_stream.simps) simp

text \<open>
  C3.  The available stream identities are those of the profiles of all sensors.  If depth is
  among them the base profile is the first depth profile; otherwise, if pose is among them, it
  is the first pose profile; otherwise the call throws
  \<^verbatim>\<open>No known base_stream found for transformations.\<close> and selects nothing.  This holds
  whatever the loop condition reads past the end of the priority vector.
\<close>

theorem C3_base_stream_selection:
  "SetBaseStream past_end available_ros_sensors =
     (case find (\<lambda>profile. (stream_type profile, stream_index profile) = DEPTH)
                (concat available_ros_sensors) of
        Some profile \<Rightarrow> Returns profile
      | None \<Rightarrow>
          (case find (\<lambda>profile. (stream_type profile, stream_index profile) = POSE)
                     (concat available_ros_sensors) of
             Some profile \<Rightarrow> Returns profile
           | None \<Rightarrow> Throws (runtime_error ''No known base_stream found for transformations.'')))"
  by (simp add: SetBaseStream_def base_stream_priority_def Let_def collect_sensors_find
        scan_found scan_next scan_end split: option.splits)

text \<open>
  With only pose available the base is pose; with depth and pose available it is depth, also
  when the pose profile comes first; with only colour, or with no stream at all, the call
  throws, also when the read past the end of the priority vector yields the available colour
  stream.
\<close>

theorem C3_base_stream_witness:
  "SetBaseStream GYRO [[profile_of RS2_STREAM_POSE 0]] = Returns (profile_of RS2_STREAM_POSE 0)
   \<and> SetBaseStream GYRO
        [[profile_of RS2_STREAM_POSE 0], [profile_of RS2_STREAM_COLOR 0, profile_of RS2_STREAM_DEPTH 0]]
       = Returns (profile_of RS2_STREAM_DEPTH 0)
   \<and> SetBaseStream COLOR [[profile_of RS2_STREAM_COLOR 0]]
       = Throws (runtime_error ''No known base_stream found for transformations.'')
   \<and> SetBaseStream GYRO [[profile_of RS2_STREAM_COLOR 0]]
       = Throws (runtime_error ''No known base_stream found for transformations.'')
   \<and> SetBaseStream GYRO []
       = Throws (runtime_error ''No known base_stream found for transformations.'')"
  using C3_base_stream_selection [of GYRO "[[profile_of RS2_STREAM_POSE 0]]"]
    C3_base_stream_selection [of GYRO
      "[[profile_of RS2_STREAM_POSE 0], [profile_of RS2_STREAM_COLOR 0, profile_of RS2_STREAM_DEPTH 0]]"]
    C3_base_stream_selection [of COLOR "[[profile_of RS2_STREAM_COLOR 0]]"]
    C3_base_stream_selection [of GYRO "[[profile_of RS2_STREAM_COLOR 0]]"]
    C3_base_stream_selection [of GYRO "[]"]
  by (simp add: profile_of_def DEPTH_def POSE_def COLOR_def)

section \<open>Properties of the frame callback\<close>

text \<open>
  C8.  Whatever the processing of a frame does, and whether it ends normally or by an
  exception, the callback itself ends without an exception; an exception is logged; and
  \<^verbatim>\<open>Resume\<close> has run on the gate as the processing left it: everything queued has been
  delivered, in order, the queue is empty and the gate is no longer paused.
\<close>

theorem C8_frame_callback_contains_exceptions:
  "(let paused = n\<lparr>synced_imu_publisher := Pause (synced_imu_publisher n)\<rparr>;
        thrown = fst (processing paused);
        left = snd (processing paused);
        gate = synced_imu_publisher left;
        result = frame_callback processing n
    in fst result = None
     \<and> synced_imu_publisher (snd result)
         = gate\<lparr>publisher := publisher gate @ pending_messages gate,
                pending_messages := [], pause_mode := False\<rparr>
     \<and> error_log (snd result)
         = (case thrown of
              None \<Rightarrow> error_log left
            | Some ex \<Rightarrow> error_log left @ [''An error has occurred during frame callback: '' @ what ex])
     \<and> node_rest (snd result) = node_rest left)"
  by (simp add: frame_callback_def Let_def Resume_flush split: prod.splits option.splits)

theorem C8_frame_callback_witness:
  "frame_callback
     (\<lambda>n. (Some (out_of_range ''map::at''),
            n\<lparr>synced_imu_publisher := snd (Publish
                 \<lparr>header_stamp = 7, angular_velocity = Vector3d 0 0 0, linear_acceleration = Vector3d 0 0 0\<rparr>
                 (synced_imu_publisher n))\<rparr>))
     \<lparr>synced_imu_publisher =
        \<lparr>publisher = [], pause_mode = False, pending_messages = [], waiting_list_size = 2, is_enabled = True\<rparr>,
      error_log = [], node_rest = ()\<rparr>
   = (None,
      \<lparr>synced_imu_publisher =
         \<lparr>publisher =
            [\<lparr>header_stamp = 7, angular_velocity = Vector3d 0 0 0, linear_acceleration = Vector3d 0 0 0\<rparr>],
          pause_mode = False, pending_messages = [], waiting_list_size = 2, is_enabled = True\<rparr>,
       error_log = [''An error has occurred during frame callback: map::at''], node_rest = ()\<rparr>)"
  using C8_frame_callback_contains_exceptions
     [where processing = "\<lambda>n. (Some (out_of_range ''map::at''),
            n\<lparr>synced_imu_publisher := snd (Publish
                 \<lparr>header_stamp = 7, angular_velocity = Vector3d 0 0 0, linear_acceleration = Vector3d 0 0 0\<rparr>
                 (synced_imu_publisher n))\<rparr>)"
         and n = "\<lparr>synced_imu_publisher =
        \<lparr>publisher = [], pause_mode = False, pending_messages = [], waiting_list_size = 2, is_enabled = True\<rparr>,
      error_log = [], node_rest = ()\<rparr>"]
  by (simp add: frame_callback_def Pause_def Publish_def Resume_flush Let_def)

section \<open>Properties of the calibration update\<close>

lemma list_update_all9:
  "length xs = 9 \<Longrightarrow>
   xs[0 := a0, 1 := a1, 2 := a2, 3 := a3, 4 := a4, 5 := a5, 6 := a6, 7 := a7, 8 := a8]
     = [a0, a1, a2, a3, a4, a5, a6, a7, a8]"
  by (auto simp add: eval_nat_numeral length_Suc_conv)

lemma list_update_all12:
  "length xs = 12 \<Longrightarrow>
   xs[0 := a0, 1 := a1, 2 := a2, 3 := a3, 4 := a4, 5 := a5, 6 := a6, 7 := a7, 8 := a8,
      9 := a9, 10 := a10, 11 := a11]
     = [a0, a1, a2, a3, a4, a5, a6, a7, a8, a9, a10, a11]"
  by (auto simp add: eval_nat_numeral length_Suc_conv)

lemma zero_yz:
  "length t = 3 \<Longrightarrow> t[1 := 0, 2 := 0] = [t ! 0, 0, 0]"
  by (auto simp add: eval_nat_numeral length_Suc_conv)

lemma updateExtrinsics_other:
  "s \<noteq> (stream_type right_video_profile, stream_index right_video_profile) \<Longrightarrow>
   camera_info (updateExtrinsicsCalibData get_extrinsics_to left_video_profile right_video_profile c) s
     = camera_info c s"
  by (simp add: updateExtrinsicsCalibData_def Let_def)

lemma updateExtrinsics_intrinsics:
  "stream_intrinsics (updateExtrinsicsCalibData get_extrinsics_to left_video_profile right_video_profile c)
     = stream_intrinsics c"
  by (simp add: updateExtrinsicsCalibData_def Let_def)

lemma updateExtrinsics_right:
  assumes "length (info_r (camera_info c (stream_type right_video_profile, stream_index right_video_profile))) = 9"
    and "length (info_p (camera_info c (stream_type right_video_profile, stream_index right_video_profile))) = 12"
    and "length (translation (get_extrinsics_to right_video_profile left_video_profile)) = 3"
  shows "camera_info (updateExtrinsicsCalibData get_extrinsics_to left_video_profile right_video_profile c)
           (stream_type right_video_profile, stream_index right_video_profile)
     = (let ex = get_extrinsics_to right_video_profile left_video_profile;
            R = rotation ex; T = [translation ex ! 0, 0, 0];
            old = camera_info c (stream_type right_video_profile, stream_index right_video_profile);
            K = info_k old
        in old\<lparr>info_r := [R ! 0, R ! 1, R ! 2, R ! 3, R ! 4, R ! 5, R ! 6, R ! 7, R ! 8],
               info_p := [P_entry K R T 0 0, P_entry K R T 0 1, P_entry K R T 0 2, P_entry K R T 0 3,
                          P_entry K R T 1 0, P_entry K R T 1 1, P_entry K R T 1 2, P_entry K R T 1 3,
                          P_entry K R T 2 0, P_entry K R T 2 1, P_entry K R T 2 2, P_entry K R T 2 3]\<rparr>)"
  using assms
  by (simp add: updateExtrinsicsCalibData_def Let_def list_update_all9 list_update_all12 zero_yz
           del: One_nat_def)

lemma updateStream_other:
  "s \<noteq> (stream_type video_profile, stream_index video_profile) \<Longrightarrow>
   camera_info (updateStreamCalibData optical_frame_id enable video_profile c) s = camera_info c s"
  by (simp add: updateStreamCalibData_def Let_def)

lemma updateStream_self:
  assumes "length (info_k (camera_info c (stream_type video_profile, stream_index video_profile))) = 9"
    and "length (info_r (camera_info c (stream_type video_profile, stream_index video_profile))) = 9"
    and "length (info_p (camera_info c (stream_type video_profile, stream_index video_profile))) = 12"
  shows "info_r (camera_info (updateStreamCalibData optical_frame_id enable video_profile c)
                   (stream_type video_profile, stream_index video_profile))
           = [1, 0, 0, 0, 1, 0, 0, 0, 1]"
    and "info_p (camera_info (updateStreamCalibData optical_frame_id enable video_profile c)
                   (stream_type video_profile, stream_index video_profile))
           = [fx (get_intrinsics video_profile), 0, ppx (get_intrinsics video_profile), 0,
              0, fy (get_intrinsics video_profile), ppy (get_intrinsics video_profile), 0,
              0, 0, 1, 0]"
    and "info_k (camera_info (updateStreamCalibData optical_frame_id enable video_profile c)
                   (stream_type video_profile, stream_index video_profile))
           = (info_k (camera_info c (stream_type video_profile, stream_index video_profile)))
               [0 := fx (get_intrinsics video_profile), 2 := ppx (get_intrinsics video_profile),
                4 := fy (get_intrinsics video_profile), 5 := ppy (get_intrinsics video_profile), 8 := 1]"
proof -
  let ?old = "camera_info c (stream_type video_profile, stream_index video_profile)"
  from assms(1) obtain k0 k1 k2 k3 k4 k5 k6 k7 k8 where k: "info_k ?old = [k0, k1, k2, k3, k4, k5, k6, k7, k8]"
    by (auto simp add: eval_nat_numeral length_Suc_conv)
  from assms(2) obtain r0 r1 r2 r3 r4 r5 r6 r7 r8 where r: "info_r ?old = [r0, r1, r2, r3, r4, r5, r6, r7, r8]"
    by (auto simp add: eval_nat_numeral length_Suc_conv)
  from assms(3) obtain p0 p1 p2 p3 p4 p5 p6 p7 p8 p9 p10 p11 where
    p: "info_p ?old = [p0, p1, p2, p3, p4, p5, p6, p7, p8, p9, p10, p11]"
    by (auto simp add: eval_nat_numeral length_Suc_conv)
  show "info_r (camera_info (updateStreamCalibData optical_frame_id enable video_profile c)
                   (stream_type video_profile, stream_index video_profile))
           = [1, 0, 0, 0, 1, 0, 0, 0, 1]"
    using r by (auto simp add: updateStreamCalibData_def Let_def)
  show "info_p (camera_info (updateStreamCalibData optical_frame_id enable video_profile c)
                   (stream_type video_profile, stream_index video_profile))
           = [fx (get_intrinsics video_profile), 0, ppx (get_intrinsics video_profile), 0,
              0, fy (get_intrinsics video_profile), ppy (get_intrinsics video_profile), 0,
              0, 0, 1, 0]"
    using k p by (auto simp add: updateStreamCalibData_def Let_def)
  show "info_k (camera_info (updateStreamCalibData optical_frame_id enable video_profile c)
                   (stream_type video_profile, stream_index video_profile))
           = (info_k ?old)
               [0 := fx (get_intrinsics video_profile), 2 := ppx (get_intrinsics video_profile),
                4 := fy (get_intrinsics video_profile), 5 := ppy (get_intrinsics video_profile), 8 := 1]"
    by (simp add: updateStreamCalibData_def Let_def)
qed

lemma updateStream_lengths:
  "length (info_r (camera_info (updateStreamCalibData optical_frame_id enable video_profile c) s))
     = length (info_r (camera_info c s))"
  "length (info_p (camera_info (updateStreamCalibData optical_frame_id enable video_profile c) s))
     = length (info_p (camera_info c s))"
  by (simp_all add: updateStreamCalibData_def Let_def)

lemma updateStream_k:
  "info_k (camera_info (updateStreamCalibData optical_frame_id enable video_profile c)
             (stream_type video_profile, stream_index video_profile))
     = (info_k (camera_info c (stream_type video_profile, stream_index video_profile)))
         [0 := fx (get_intrinsics video_profile), 2 := ppx (get_intrinsics video_profile),
          4 := fy (get_intrinsics video_profile), 5 := ppy (get_intrinsics video_profile), 8 := 1]"
  by (simp add: updateStreamCalibData_def Let_def)

lemma updateProfiles_pair:
  assumes "stream_index left_video_profile = 1" and "stream_index right_video_profile = 2"
  shows "updateProfilesStreamCalibData optical_frame_id enable get_extrinsics_to
           [Some left_video_profile, Some right_video_profile] c
         = updateExtrinsicsCalibData get_extrinsics_to left_video_profile right_video_profile
             (updateStreamCalibData optical_frame_id enable right_video_profile
               (updateStreamCalibData optical_frame_id enable left_video_profile c))"
  using assms by (simp add: updateProfilesStreamCalibData_def Let_def)

text \<open>
  C7.  For a left profile of index 1 and a right profile of index 2, the stereo update leaves
  every record but the right one as it was, the left one in particular, and leaves the
  intrinsics table alone.  In the right record it writes the rotation and the projection only:
  the rotation is the device's, and the projection is \<open>K_right \<cdot> [R | T]\<close> with the y and z
  components of the translation set to 0.  For the identity rotation this is \<open>K_right\<close> next
  to the column \<open>K_right \<cdot> (B, 0, 0)\<close>.  The update of a profile list holding the pair runs the
  stereo update after the per-stream updates: afterwards the left record has the identity
  rotation and the projection the per-stream update gave it, and the right record has the
  device's rotation and the projection \<open>K_right \<cdot> [R | T]\<close>, where \<open>K_right\<close> is the matrix the
  per-stream update of the right profile left.
\<close>

theorem C7_stereo_calibration:
  assumes "stream_index left_video_profile = 1" and "stream_index right_video_profile = 2"
    and "length (info_k (camera_info c (stream_type left_video_profile, 1))) = 9"
    and "length (info_r (camera_info c (stream_type left_video_profile, 1))) = 9"
    and "length (info_p (camera_info c (stream_type left_video_profile, 1))) = 12"
    and "length (info_r (camera_info c (stream_type right_video_profile, 2))) = 9"
    and "length (info_p (camera_info c (stream_type right_video_profile, 2))) = 12"
    and "length (translation (get_extrinsics_to right_video_profile left_video_profile)) = 3"
  shows
    "(let left = (stream_type left_video_profile, 1); right = (stream_type right_video_profile, 2);
          ex = get_extrinsics_to right_video_profile left_video_profile;
          R = rotation ex; T = [translation ex ! 0, 0, 0];
          K = info_k (camera_info c right);
          K_right = (info_k (camera_info c right))
                      [0 := fx (get_intrinsics right_video_profile),
                       2 := ppx (get_intrinsics right_video_profile),
                       4 := fy (get_intrinsics right_video_profile),
                       5 := ppy (get_intrinsics right_video_profile), 8 := 1];
          c' = updateExtrinsicsCalibData get_extrinsics_to left_video_profile right_video_profile c;
          c'' = updateProfilesStreamCalibData optical_frame_id enable get_extrinsics_to
                  [Some left_video_profile, Some right_video_profile] c
      in (\<forall>s. s \<noteq> right \<longrightarrow> camera_info c' s = camera_info c s)
       \<and> camera_info c' left = camera_info c left
       \<and> stream_intrinsics c' = stream_intrinsics c
       \<and> camera_info c' right
           = (camera_info c right)
               \<lparr>info_r := [R ! 0, R ! 1, R ! 2, R ! 3, R ! 4, R ! 5, R ! 6, R ! 7, R ! 8],
                info_p := [P_entry K R T 0 0, P_entry K R T 0 1, P_entry K R T 0 2, P_entry K R T 0 3,
                           P_entry K R T 1 0, P_entry K R T 1 1, P_entry K R T 1 2, P_entry K R T 1 3,
                           P_entry K R T 2 0, P_entry K R T 2 1, P_entry K R T 2 2, P_entry K R T 2 3]\<rparr>
       \<and> (R = [1, 0, 0, 0, 1, 0, 0, 0, 1] \<longrightarrow>
            info_p (camera_info c' right)
              = [K ! 0, K ! 1, K ! 2, K ! 0 * (translation ex ! 0),
                 K ! 3, K ! 4, K ! 5, K ! 3 * (translation ex ! 0),
                 K ! 6, K ! 7, K ! 8, K ! 6 * (translation ex ! 0)])
       \<and> info_r (camera_info c'' left) = [1, 0, 0, 0, 1, 0, 0, 0, 1]
       \<and> info_p (camera_info c'' left)
           = [fx (get_intrinsics left_video_profile), 0, ppx (get_intrinsics left_video_profile), 0,
              0, fy (get_intrinsics left_video_profile), ppy (get_intrinsics left_video_profile), 0,
              0, 0, 1, 0]
       \<and> info_r (camera_info c'' right) = [R ! 0, R ! 1, R ! 2, R ! 3, R ! 4, R ! 5, R ! 6, R ! 7, R ! 8]
       \<and> info_p (camera_info c'' right)
           = [P_entry K_right R T 0 0, P_entry K_right R T 0 1, P_entry K_right R T 0 2,
              P_entry K_right R T 0 3,
              P_entry K_right R T 1 0, P_entry K_right R T 1 1, P_entry K_right R T 1 2,
              P_entry K_right R T 1 3,
              P_entry K_right R T 2 0, P_entry K_right R T 2 1, P_entry K_right R T 2 2,
              P_entry K_right R T 2 3]
       \<and> (R = [1, 0, 0, 0, 1, 0, 0, 0, 1] \<longrightarrow>
            info_p (camera_info c'' right)
              = [K_right ! 0, K_right ! 1, K_right ! 2, K_right ! 0 * (translation ex ! 0),
                 K_right ! 3, K_right ! 4, K_right ! 5, K_right ! 3 * (translation ex ! 0),
                 K_right ! 6, K_right ! 7, K_right ! 8, K_right ! 6 * (translation ex ! 0)]))"
proof -
  let ?left = "(stream_type left_video_profile, 1::int)"
  let ?right = "(stream_type right_video_profile, 2::int)"
  let ?ex = "get_extrinsics_to right_video_profile left_video_profile"
  let ?c' = "updateExtrinsicsCalibData get_extrinsics_to left_video_profile right_video_profile c"
  let ?cl = "updateStreamCalibData optical_frame_id enable left_video_profile c"
  let ?cr = "updateStreamCalibData optical_frame_id enable right_video_profile ?cl"
  let ?c'' = "updateExtrinsicsCalibData get_extrinsics_to left_video_profile right_video_profile ?cr"
  have lkey: "(stream_type left_video_profile, stream_index left_video_profile) = ?left"
    and rkey: "(stream_type right_video_profile, stream_index right_video_profile) = ?right"
    using assms(1,2) by simp_all
  have neq: "?left \<noteq> ?right" by simp
  have other: "\<forall>s. s \<noteq> ?right \<longrightarrow> camera_info ?c' s = camera_info c s"
    using updateExtrinsics_other [of _ right_video_profile get_extrinsics_to left_video_profile c]
    unfolding rkey by blast
  have left: "camera_info ?c' ?left = camera_info c ?left"
    using other neq by blast
  have intr: "stream_intrinsics ?c' = stream_intrinsics c"
    by (rule updateExtrinsics_intrinsics)
  have right: "camera_info ?c' ?right
           = (let ex = ?ex; R = rotation ex; T = [translation ex ! 0, 0, 0];
                  old = camera_info c ?right; K = info_k old
              in old\<lparr>info_r := [R ! 0, R ! 1, R ! 2, R ! 3, R ! 4, R ! 5, R ! 6, R ! 7, R ! 8],
               info_p := [P_entry K R T 0 0, P_entry K R T 0 1, P_entry K R T 0 2, P_entry K R T 0 3,
                          P_entry K R T 1 0, P_entry K R T 1 1, P_entry K R T 1 2, P_entry K R T 1 3,
                          P_entry K R T 2 0, P_entry K R T 2 1, P_entry K R T 2 2, P_entry K R T 2 3]\<rparr>)"
    using updateExtrinsics_right [of c right_video_profile get_extrinsics_to left_video_profile]
      assms(6,7,8)
    unfolding rkey by simp
  have ident: "rotation ?ex = [1, 0, 0, 0, 1, 0, 0, 0, 1] \<longrightarrow>
            info_p (camera_info ?c' ?right)
              = [info_k (camera_info c ?right) ! 0, info_k (camera_info c ?right) ! 1,
                 info_k (camera_info c ?right) ! 2, info_k (camera_info c ?right) ! 0 * (translation ?ex ! 0),
                 info_k (camera_info c ?right) ! 3, info_k (camera_info c ?right) ! 4,
                 info_k (camera_info c ?right) ! 5, info_k (camera_info c ?right) ! 3 * (translation ?ex ! 0),
                 info_k (camera_info c ?right) ! 6, info_k (camera_info c ?right) ! 7,
                 info_k (camera_info c ?right) ! 8, info_k (camera_info c ?right) ! 6 * (translation ?ex ! 0)]"
    unfolding right by (simp add: Let_def P_entry_def RT_entry_def numeral_2_eq_2)
  have pair: "updateProfilesStreamCalibData optical_frame_id enable get_extrinsics_to
                  [Some left_video_profile, Some right_video_profile] c = ?c''"
    using assms(1,2) by (rule updateProfiles_pair)
  have l1: "camera_info ?c'' ?left = camera_info ?cr ?left"
    using updateExtrinsics_other [of ?left right_video_profile get_extrinsics_to left_video_profile ?cr]
      neq unfolding rkey by simp
  have l2: "camera_info ?cr ?left = camera_info ?cl ?left"
    using updateStream_other [of ?left right_video_profile optical_frame_id enable ?cl]
      neq unfolding rkey by simp
  have l3: "info_r (camera_info ?cl ?left) = [1, 0, 0, 0, 1, 0, 0, 0, 1]"
    using updateStream_self(1) [of c left_video_profile optical_frame_id enable] assms(3,4,5)
    unfolding lkey by simp
  have l4: "info_p (camera_info ?cl ?left)
           = [fx (get_intrinsics left_video_profile), 0, ppx (get_intrinsics left_video_profile), 0,
              0, fy (get_intrinsics left_video_profile), ppy (get_intrinsics left_video_profile), 0,
              0, 0, 1, 0]"
    using updateStream_self(2) [of c left_video_profile optical_frame_id enable] assms(3,4,5)
    unfolding lkey by simp
  let ?K = "(info_k (camera_info c ?right))
              [0 := fx (get_intrinsics right_video_profile),
               2 := ppx (get_intrinsics right_video_profile),
               4 := fy (get_intrinsics right_video_profile),
               5 := ppy (get_intrinsics right_video_profile), 8 := 1]"
  have r1: "camera_info ?cl ?right = camera_info c ?right"
    using updateStream_other [of ?right left_video_profile optical_frame_id enable c]
      neq unfolding lkey by simp
  have r2: "info_k (camera_info ?cr ?right) = ?K"
    using updateStream_k [of optical_frame_id enable right_video_profile ?cl]
    unfolding rkey r1 by simp
  have r3: "length (info_r (camera_info ?cr ?right)) = 9" "length (info_p (camera_info ?cr ?right)) = 12"
    using assms(6,7) by (simp_all add: updateStream_lengths)
  have r4: "camera_info ?c'' ?right
           = (let ex = ?ex; R = rotation ex; T = [translation ex ! 0, 0, 0];
                  old = camera_info ?cr ?right; K = info_k old
              in old\<lparr>info_r := [R ! 0, R ! 1, R ! 2, R ! 3, R ! 4, R ! 5, R ! 6, R ! 7, R ! 8],
               info_p := [P_entry K R T 0 0, P_entry K R T 0 1, P_entry K R T 0 2, P_entry K R T 0 3,
                          P_entry K R T 1 0, P_entry K R T 1 1, P_entry K R T 1 2, P_entry K R T 1 3,
                          P_entry K R T 2 0, P_entry K R T 2 1, P_entry K R T 2 2, P_entry K R T 2 3]\<rparr>)"
    using updateExtrinsics_right [of ?cr right_video_profile get_extrinsics_to left_video_profile]
      r3 assms(8)
    unfolding rkey by simp
  have r5: "info_r (camera_info ?c'' ?right)
           = [rotation ?ex ! 0, rotation ?ex ! 1, rotation ?ex ! 2, rotation ?ex ! 3, rotation ?ex ! 4,
              rotation ?ex ! 5, rotation ?ex ! 6, rotation ?ex ! 7, rotation ?ex ! 8]"
    unfolding r4 by (simp add: Let_def)
  have r6: "info_p (camera_info ?c'' ?right)
           = [P_entry ?K (rotation ?ex) [translation ?ex ! 0, 0, 0] 0 0,
              P_entry ?K (rotation ?ex) [translation ?ex ! 0, 0, 0] 0 1,
              P_entry ?K (rotation ?ex) [translation ?ex ! 0, 0, 0] 0 2,
              P_entry ?K (rotation ?ex) [translation ?ex ! 0, 0, 0] 0 3,
              P_entry ?K (rotation ?ex) [translation ?ex ! 0, 0, 0] 1 0,
              P_entry ?K (rotation ?ex) [translation ?ex ! 0, 0, 0] 1 1,
              P_entry ?K (rotation ?ex) [translation ?ex ! 0, 0, 0] 1 2,
              P_entry ?K (rotation ?ex) [translation ?ex ! 0, 0, 0] 1 3,
              P_entry ?K (rotation ?ex) [translation ?ex ! 0, 0, 0] 2 0,
              P_entry ?K (rotation ?ex) [translation ?ex ! 0, 0, 0] 2 1,
              P_entry ?K (rotation ?ex) [translation ?ex ! 0, 0, 0] 2 2,
              P_entry ?K (rotation ?ex) [translation ?ex ! 0, 0, 0] 2 3]"
    unfolding r4 by (simp add: Let_def r2)
  have r7: "rotation ?ex = [1, 0, 0, 0, 1, 0, 0, 0, 1] \<longrightarrow>
            info_p (camera_info ?c'' ?right)
              = [?K ! 0, ?K ! 1, ?K ! 2, ?K ! 0 * (translation ?ex ! 0),
                 ?K ! 3, ?K ! 4, ?K ! 5, ?K ! 3 * (translation ?ex ! 0),
                 ?K ! 6, ?K ! 7, ?K ! 8, ?K ! 6 * (translation ?ex ! 0)]"
    unfolding r6 by (simp add: P_entry_def RT_entry_def numeral_2_eq_2)
  show ?thesis
    unfolding Let_def pair l1 l2 l3 l4
    using other left intr right ident r5 r6 r7
    by (simp only: Let_def simp_thms)
qed

lemma stereo_calibration_right:
  "camera_info stereo_calibration (RS2_STREAM_INFRARED, 2)
     = \<lparr>info_width = 640, info_height = 480, header_frame_id = ''camera_optical_frame'',
        info_k = [610, 0, 322, 0, 615, 242, 0, 0, 1],
        info_r = [1, 0, 0, 0, 1, 0, 0, 0, 1],
        info_p = [610, 0, 322, 0, 0, 615, 242, 0, 0, 0, 1, 0],
        info_d = [0, 0, 0, 0, 0], distortion_model = ''plumb_bob''\<rparr>"
  by (simp add: stereo_calibration_def updateStreamCalibData_def empty_calibration_def
        empty_CameraInfo_def video_profile_of_def DEPTH_def Let_def upt_rec eval_nat_numeral)

lemma stereo_calibration_left:
  "camera_info stereo_calibration (RS2_STREAM_INFRARED, 1)
     = \<lparr>info_width = 640, info_height = 480, header_frame_id = ''camera_optical_frame'',
        info_k = [600, 0, 320, 0, 600, 240, 0, 0, 1],
        info_r = [1, 0, 0, 0, 1, 0, 0, 0, 1],
        info_p = [600, 0, 320, 0, 0, 600, 240, 0, 0, 0, 1, 0],
        info_d = [0, 0, 0, 0, 0], distortion_model = ''plumb_bob''\<rparr>"
  by (simp add: stereo_calibration_def updateStreamCalibData_def empty_calibration_def
        empty_CameraInfo_def video_profile_of_def DEPTH_def Let_def upt_rec eval_nat_numeral)

theorem C7_stereo_witness:
  "info_p (camera_info
      (updateExtrinsicsCalibData stereo_extrinsics
         (video_profile_of RS2_STREAM_INFRARED 1 600 600 320 240)
         (video_profile_of RS2_STREAM_INFRARED 2 610 615 322 242) stereo_calibration)
      (RS2_STREAM_INFRARED, 2))
     = [610, 0, 322, 610 * (- 1 / 20), 0, 615, 242, 0, 0, 0, 1, 0]
   \<and> camera_info
      (updateExtrinsicsCalibData stereo_extrinsics
         (video_profile_of RS2_STREAM_INFRARED 1 600 600 320 240)
         (video_profile_of RS2_STREAM_INFRARED 2 610 615 322 242) stereo_calibration)
      (RS2_STREAM_INFRARED, 1)
     = camera_info stereo_calibration (RS2_STREAM_INFRARED, 1)
   \<and> info_r (camera_info
      (updateProfilesStreamCalibData (\<lambda>s. ''camera_optical_frame'') (\<lambda>s. True) stereo_extrinsics
         [Some (video_profile_of RS2_STREAM_INFRARED 1 600 600 320 240),
          Some (video_profile_of RS2_STREAM_INFRARED 2 610 615 322 242)] stereo_calibration)
      (RS2_STREAM_INFRARED, 1))
     = [1, 0, 0, 0, 1, 0, 0, 0, 1]
   \<and> info_p (camera_info
      (updateProfilesStreamCalibData (\<lambda>s. ''camera_optical_frame'') (\<lambda>s. True) stereo_extrinsics
         [Some (video_profile_of RS2_STREAM_INFRARED 1 600 600 320 240),
          Some (video_profile_of RS2_STREAM_INFRARED 2 610 615 322 242)] stereo_calibration)
      (RS2_STREAM_INFRARED, 2))
     = [610, 0, 322, 610 * (- 1 / 20), 0, 615, 242, 0, 0, 0, 1, 0]"
proof -
  let ?l = "video_profile_of RS2_STREAM_INFRARED 1 600 600 320 240"
  let ?r = "video_profile_of RS2_STREAM_INFRARED 2 610 615 322 242"
  have l: "stream_index ?l = 1" "stream_type ?l = RS2_STREAM_INFRARED"
    and r: "stream_index ?r = 2" "stream_type ?r = RS2_STREAM_INFRARED"
    by (simp_all add: video_profile_of_def)
  have sizes:
    "length (info_k (camera_info stereo_calibration (stream_type ?l, 1))) = 9"
    "length (info_r (camera_info stereo_calibration (stream_type ?l, 1))) = 9"
    "length (info_p (camera_info stereo_calibration (stream_type ?l, 1))) = 12"
    "length (info_r (camera_info stereo_calibration (stream_type ?r, 2))) = 9"
    "length (info_p (camera_info stereo_calibration (stream_type ?r, 2))) = 12"
    "length (translation (stereo_extrinsics ?r ?l)) = 3"
    unfolding l r by (simp_all add: stereo_calibration_left stereo_calibration_right stereo_extrinsics_def)
  from C7_stereo_calibration
         [where left_video_profile = ?l and right_video_profile = ?r and c = stereo_calibration
            and get_extrinsics_to = stereo_extrinsics
            and optical_frame_id = "\<lambda>s. ''camera_optical_frame''" and enable = "\<lambda>s. True",
          OF l(1) r(1) sizes]
  show ?thesis
    unfolding l r Let_def
    by (simp add: stereo_calibration_right stereo_extrinsics_def P_entry_def RT_entry_def
          video_profile_of_def)
qed

end
